theory Spec2Isabelle
  imports Main
begin

text \<open>
  The security core of brandkit's package \<^verbatim>\<open>svg/security\<close>: the scanner that looks for
  threats in the text of an SVG file with a catalog of regular expressions, the sanitizer
  that removes or neutralizes them, and the report generated from a batch of scan
  results. The Go functions are embedded as HOL functions under their own names; file
  contents are byte strings, the file system and the clock are parameters.
\<close>

section \<open>Threat taxonomy (svg/security)\<close>

text \<open>
  \<^verbatim>\<open>type ThreatType int\<close>: a threat type is an integer, and the seven constants are
  declared by \<^verbatim>\<open>iota\<close>, in the order of the source. Any other integer is a value of the
  type too (the source's \<^verbatim>\<open>default\<close> branches and its test with \<^verbatim>\<open>ThreatType(99)\<close>).
  Threat types are only compared, so the width of Go's \<^verbatim>\<open>int\<close> plays no part.
\<close>

type_synonym ThreatType = int

definition ThreatScript :: ThreatType where "ThreatScript = 0"
definition ThreatEventHandler :: ThreatType where "ThreatEventHandler = 1"
definition ThreatExternalRef :: ThreatType where "ThreatExternalRef = 2"
definition ThreatAnimation :: ThreatType where "ThreatAnimation = 3"
definition ThreatStyleBlock :: ThreatType where "ThreatStyleBlock = 4"
definition ThreatLink :: ThreatType where "ThreatLink = 5"
definition ThreatXMLEntity :: ThreatType where "ThreatXMLEntity = 6"

definition String :: "ThreatType \<Rightarrow> string" where
  "String t =
     (if t = ThreatScript then ''script''
      else if t = ThreatEventHandler then ''event_handler''
      else if t = ThreatExternalRef then ''external_ref''
      else if t = ThreatAnimation then ''animation''
      else if t = ThreatStyleBlock then ''style_block''
      else if t = ThreatLink then ''link''
      else if t = ThreatXMLEntity then ''xml_entity''
      else ''unknown'')"

definition Severity :: "ThreatType \<Rightarrow> string" where
  "Severity t =
     (if t = ThreatScript \<or> t = ThreatEventHandler then ''critical''
      else if t = ThreatExternalRef \<or> t = ThreatXMLEntity then ''high''
      else if t = ThreatAnimation \<or> t = ThreatLink then ''medium''
      else if t = ThreatStyleBlock then ''low''
      else ''info'')"

record Threat =
  Type :: ThreatType
  Description :: string
  Match :: string

text \<open>
  \<^verbatim>\<open>map[ThreatType]int\<close>: reading a missing key gives the zero value, \<^verbatim>\<open>m[k]++\<close>
  stores the value read plus one.
\<close>

type_synonym tmap = "ThreatType \<rightharpoonup> int"

definition map_get :: "tmap \<Rightarrow> ThreatType \<Rightarrow> int" where
  "map_get m k = (case m k of None \<Rightarrow> 0 | Some v \<Rightarrow> v)"

definition map_incr :: "tmap \<Rightarrow> ThreatType \<Rightarrow> tmap" where
  "map_incr m k = m(k \<mapsto> map_get m k + 1)"

text \<open>
  A map field may be \<^verbatim>\<open>nil\<close> (\<open>None\<close>): reading any key of a nil map gives the zero
  value, writing to it panics.
\<close>

definition count_get :: "tmap option \<Rightarrow> ThreatType \<Rightarrow> int" where
  "count_get m k = (case m of None \<Rightarrow> 0 | Some f \<Rightarrow> map_get f k)"

record Result =
  FilePath :: string
  IsSecure :: bool
  Threats :: "Threat list"
  ThreatCounts :: "tmap option"
  Errors :: "string list"

definition IsSuccess :: "Result \<Rightarrow> bool" where
  "IsSuccess r \<longleftrightarrow> IsSecure r \<and> length (Errors r) = 0"

section \<open>Regular expressions (the part of Go's \<^verbatim>\<open>regexp\<close> the catalog uses)\<close>

text \<open>
  Go's \<^verbatim>\<open>regexp\<close> returns the leftmost match and, among the matches that start there,
  the one a backtracking search finds first. \<open>bt\<close> is that search, in continuation
  style: \<open>bt r st k\<close> matches \<open>r\<close> at the state \<open>st\<close> and hands every way of matching it,
  in the order of preference, to \<open>k\<close> until \<open>k\<close> accepts one.

  A state is the byte before the position (for \<^verbatim>\<open>\b\<close>), the text from the position on,
  and the capture groups closed so far (the most recent first).

  Strings are byte strings. A pattern of the catalog reads bytes: its literals and
  listed bytes are ASCII, which never occur inside a multi-byte UTF-8 sequence, so a
  negated class or \<^verbatim>\<open>.\<close> that consumes the bytes of a rune one at a time matches the same
  spans as Go does rune by rune. Under \<^verbatim>\<open>(?i)\<close> Go also matches U+017F for \<^verbatim>\<open>s\<close> and
  U+212A for \<^verbatim>\<open>k\<close>; \<open>long_s\<close> and \<open>kelvin\<close> are their UTF-8 encodings.
\<close>

type_synonym caps = "(nat \<times> string) list"
type_synonym rstate = "char option \<times> string \<times> caps"

datatype re =
    Eps
  | Sym "char \<Rightarrow> bool"
  | Seq re re
  | Alt re re
  | Star re
  | Lazy re
  | WordB
  | Group nat re

definition word_chars :: string where
  "word_chars = ''0123456789ABCDEFGHIJKLMNOPQRSTUVWXYZ_abcdefghijklmnopqrstuvwxyz''"

definition is_word :: "char option \<Rightarrow> bool" where
  "is_word p = (case p of None \<Rightarrow> False | Some c \<Rightarrow> c \<in> set word_chars)"

definition first :: "string \<Rightarrow> char option" where
  "first s = (case s of [] \<Rightarrow> None | c # _ \<Rightarrow> Some c)"

text \<open>
  \<open>Star\<close> is the greedy \<^verbatim>\<open>*\<close>, \<open>Lazy\<close> is \<^verbatim>\<open>*?\<close>. An iteration has to consume a byte
  before the next one starts (every starred expression of the catalog does).
\<close>

function bt :: "re \<Rightarrow> rstate \<Rightarrow> (rstate \<Rightarrow> 'a option) \<Rightarrow> 'a option" where
  "bt Eps st k = k st"
| "bt (Sym P) (p, s, cs) k =
     (case s of [] \<Rightarrow> None | c # s' \<Rightarrow> if P c then k (Some c, s', cs) else None)"
| "bt (Seq a b) st k = bt a st (\<lambda>st'. bt b st' k)"
| "bt (Alt a b) st k = (case bt a st k of Some x \<Rightarrow> Some x | None \<Rightarrow> bt b st k)"
| "bt (Star a) st k =
     (case bt a st (\<lambda>st'. if length (fst (snd st')) < length (fst (snd st))
                            then bt (Star a) st' k else None)
      of Some x \<Rightarrow> Some x | None \<Rightarrow> k st)"
| "bt (Lazy a) st k =
     (case k st of Some x \<Rightarrow> Some x
      | None \<Rightarrow> bt a st (\<lambda>st'. if length (fst (snd st')) < length (fst (snd st))
                                  then bt (Lazy a) st' k else None))"
| "bt WordB (p, s, cs) k = (if is_word p \<noteq> is_word (first s) then k (p, s, cs) else None)"
| "bt (Group n a) (p, s, cs) k =
     bt a (p, s, cs) (\<lambda>(p', s', cs'). k (p', s', (n, take (length s - length s') s) # cs'))"
  by pat_completeness auto
termination
  by (relation "measures [\<lambda>(r, st, k). size r, \<lambda>(r, st, k). length (fst (snd st))]") auto

fun seqs :: "re list \<Rightarrow> re" where
  "seqs [] = Eps"
| "seqs [r] = r"
| "seqs (r # rs) = Seq r (seqs rs)"

definition chr :: "char \<Rightarrow> re" where
  "chr c = Sym (\<lambda>x. x = c)"

definition one_of :: "string \<Rightarrow> re" where
  "one_of cs = Sym (\<lambda>x. x \<in> set cs)"

definition none_of :: "string \<Rightarrow> re" where
  "none_of cs = Sym (\<lambda>x. x \<notin> set cs)"

definition Plus :: "re \<Rightarrow> re" where
  "Plus r = Seq r (Star r)"

definition Opt :: "re \<Rightarrow> re" where
  "Opt r = Alt r Eps"

definition lowers :: string where
  "lowers = ''abcdefghijklmnopqrstuvwxyz''"

definition uppers :: string where
  "uppers = ''ABCDEFGHIJKLMNOPQRSTUVWXYZ''"

definition other_case :: "char \<Rightarrow> char" where
  "other_case c =
     (case map_of (zip (lowers @ uppers) (uppers @ lowers)) c of None \<Rightarrow> c | Some d \<Rightarrow> d)"

definition long_s :: re where
  "long_s = Seq (chr (CHR 0xC5)) (chr (CHR 0xBF))"

definition kelvin :: re where
  "kelvin = Seq (chr (CHR 0xE2)) (Seq (chr (CHR 0x84)) (chr (CHR 0xAA)))"

text \<open>A literal byte under \<^verbatim>\<open>(?i)\<close>, and a literal string under \<^verbatim>\<open>(?i)\<close>.\<close>

definition ichr :: "char \<Rightarrow> re" where
  "ichr c =
     (if c = CHR ''s'' \<or> c = CHR ''S'' then Alt (one_of ''sS'') long_s
      else if c = CHR ''k'' \<or> c = CHR ''K'' then Alt (one_of ''kK'') kelvin
      else Sym (\<lambda>x. x = c \<or> x = other_case c))"

definition ilit :: "string \<Rightarrow> re" where
  "ilit s = seqs (map ichr s)"

text \<open>\<^verbatim>\<open>[a-z]\<close> under \<^verbatim>\<open>(?i)\<close>.\<close>

definition iletter :: re where
  "iletter = Alt (one_of (lowers @ uppers)) (Alt long_s kelvin)"

definition dq :: char where "dq = CHR 0x22"
definition sq :: char where "sq = CHR 0x27"
definition nl :: char where "nl = CHR 0x0A"

text \<open>\<^verbatim>\<open>\s\<close> is tab, newline, form feed, carriage return and space.\<close>

definition space :: re where
  "space = one_of [CHR 0x09, nl, CHR 0x0C, CHR 0x0D, CHR 0x20]"

text \<open>\<^verbatim>\<open>.\<close> without the flag \<^verbatim>\<open>s\<close> (any byte but newline) and with it.\<close>

definition dot :: re where
  "dot = none_of [nl]"

definition dot_s :: re where
  "dot_s = Sym (\<lambda>x. True)"

text \<open>
  The text cut into what no match covers and the successive matches, from left to
  right: \<open>segs r n p s\<close> has \<open>n\<close> bytes of the current match still to skip, \<open>p\<close> is the
  byte before \<open>s\<close>. After a match the search resumes where the match ended. No pattern
  of the catalogs matches the empty string (\<open>catalog_matches_nonempty\<close> and
  \<open>removal_matches_nonempty\<close> below), so the two branches for an empty match are never
  taken: there an empty match is recorded and the search moves on by one byte.
\<close>

datatype seg = Keep char | Hit string caps

fun segs :: "re \<Rightarrow> nat \<Rightarrow> char option \<Rightarrow> string \<Rightarrow> seg list" where
  "segs r n p [] =
     (if n = 0
      then (case bt r (p, [], []) Some of None \<Rightarrow> [] | Some (p', s', cs) \<Rightarrow> [Hit [] cs])
      else [])"
| "segs r (Suc n) p (c # s) = segs r n (Some c) s"
| "segs r 0 p (c # s) =
     (case bt r (p, c # s, []) Some of
        None \<Rightarrow> Keep c # segs r 0 (Some c) s
      | Some (p', s', cs) \<Rightarrow>
          (let m = take (length (c # s) - length s') (c # s) in
           if m = [] then Hit [] cs # Keep c # segs r 0 (Some c) s
           else Hit m cs # segs r (length m - 1) (Some c) s))"

fun hits :: "seg list \<Rightarrow> string list" where
  "hits [] = []"
| "hits (Keep c # gs) = hits gs"
| "hits (Hit m cs # gs) = m # hits gs"

definition FindAllString :: "re \<Rightarrow> string \<Rightarrow> string list" where
  "FindAllString r s = hits (segs r 0 None s)"

text \<open>
  A replacement template, parsed: \<^verbatim>\<open>$1#"\<close> is \<open>[Ref 1, Txt ''#''@[dq]]\<close> (the name after
  \<^verbatim>\<open>$\<close> is the longest run of letters, digits and underscores), \<^verbatim>\<open>${1}none${2}\<close> is
  \<open>[Ref 1, Txt ''none'', Ref 2]\<close>. A group that took no part in the match expands to
  the empty string.
\<close>

datatype titem = Txt string | Ref nat

fun expand :: "titem list \<Rightarrow> caps \<Rightarrow> string" where
  "expand [] cs = []"
| "expand (Txt t # ts) cs = t @ expand ts cs"
| "expand (Ref n # ts) cs = (case map_of cs n of None \<Rightarrow> [] | Some x \<Rightarrow> x) @ expand ts cs"

fun rebuild :: "titem list \<Rightarrow> seg list \<Rightarrow> string" where
  "rebuild repl [] = []"
| "rebuild repl (Keep c # gs) = c # rebuild repl gs"
| "rebuild repl (Hit m cs # gs) = expand repl cs @ rebuild repl gs"

definition ReplaceAllString :: "re \<Rightarrow> string \<Rightarrow> titem list \<Rightarrow> string" where
  "ReplaceAllString r s repl = rebuild repl (segs r 0 None s)"

section \<open>The detection catalog\<close>

record threatPattern =
  pattern :: re
  desc :: string
  threatType :: ThreatType
  matchLength :: nat

text \<open>Pieces the patterns share: \<^verbatim>\<open>\s*\<close>, \<^verbatim>\<open>\s+\<close>, \<^verbatim>\<open>["']\<close>, \<^verbatim>\<open>[^"']\<close>, \<^verbatim>\<open>https?://\<close>.\<close>

definition ws :: re where "ws = Star space"
definition ws1 :: re where "ws1 = Plus space"
definition quote :: re where "quote = one_of [dq, sq]"
definition not_quote :: re where "not_quote = none_of [dq, sq]"
definition https :: re where "https = seqs [ilit ''http'', Opt (ichr CHR ''s''), ilit ''://'']"

text \<open>
  \<^verbatim>\<open>(?i)<script\b[^>]*>.*?</script>\<close>,
  \<^verbatim>\<open>(?i)<script\b[^>]*/>\<close>,
  \<^verbatim>\<open>(?i)javascript\s*:\<close>,
  \<^verbatim>\<open>(?i)vbscript\s*:\<close>,
  \<^verbatim>\<open>(?i)data\s*:\s*text/html\<close>.
\<close>

definition re_script_element :: re where
  "re_script_element =
     seqs [ilit ''<script'', WordB, Star (none_of ''>''), chr CHR ''>'', Lazy dot, ilit ''</script>'']"

definition re_script_selfclosing :: re where
  "re_script_selfclosing = seqs [ilit ''<script'', WordB, Star (none_of ''>''), ilit ''/>'']"

definition re_javascript :: re where
  "re_javascript = seqs [ilit ''javascript'', ws, chr CHR '':'']"

definition re_vbscript :: re where
  "re_vbscript = seqs [ilit ''vbscript'', ws, chr CHR '':'']"

definition re_data_html :: re where
  "re_data_html = seqs [ilit ''data'', ws, chr CHR '':'', ws, ilit ''text/html'']"

definition scriptPatterns :: "threatPattern list" where
  "scriptPatterns =
     [\<lparr>pattern = re_script_element, desc = ''script element'',
       threatType = ThreatScript, matchLength = 100\<rparr>,
      \<lparr>pattern = re_script_selfclosing, desc = ''self-closing script element'',
       threatType = ThreatScript, matchLength = 50\<rparr>,
      \<lparr>pattern = re_javascript, desc = ''javascript: URI'',
       threatType = ThreatScript, matchLength = 30\<rparr>,
      \<lparr>pattern = re_vbscript, desc = ''vbscript: URI'',
       threatType = ThreatScript, matchLength = 30\<rparr>,
      \<lparr>pattern = re_data_html, desc = ''data:text/html URI'',
       threatType = ThreatScript, matchLength = 50\<rparr>]"

text \<open>
  \<^verbatim>\<open>(?i)\s+on[a-z]+\s*=\s*"[^"]*"\<close>,
  \<^verbatim>\<open>(?i)\s+on[a-z]+\s*=\s*'[^']*'\<close>,
  \<^verbatim>\<open>(?i)\s+on[a-z]+\s*=\s*[^\s>"']+\<close>.
\<close>

definition re_on_attr :: re where
  "re_on_attr = seqs [ws1, ilit ''on'', Plus iletter, ws, chr CHR ''='', ws]"

definition re_handler_dq :: re where
  "re_handler_dq = seqs [re_on_attr, chr dq, Star (none_of [dq]), chr dq]"

definition re_handler_sq :: re where
  "re_handler_sq = seqs [re_on_attr, chr sq, Star (none_of [sq]), chr sq]"

definition re_handler_bare :: re where
  "re_handler_bare =
     seqs [re_on_attr, Plus (none_of [CHR 0x09, nl, CHR 0x0C, CHR 0x0D, CHR 0x20, CHR ''>'', dq, sq])]"

definition eventHandlerPatterns :: "threatPattern list" where
  "eventHandlerPatterns =
     [\<lparr>pattern = re_handler_dq, desc = ''event handler attribute'',
       threatType = ThreatEventHandler, matchLength = 80\<rparr>,
      \<lparr>pattern = re_handler_sq, desc = ''event handler attribute'',
       threatType = ThreatEventHandler, matchLength = 80\<rparr>,
      \<lparr>pattern = re_handler_bare, desc = ''unquoted event handler attribute'',
       threatType = ThreatEventHandler, matchLength = 60\<rparr>]"

text \<open>
  \<^verbatim>\<open>(?i)href\s*=\s*["']https?://[^"']+["']\<close>,
  \<^verbatim>\<open>(?i)xlink:href\s*=\s*["']https?://[^"']+["']\<close>,
  \<^verbatim>\<open>(?i)<foreignObject\b\<close>,
  \<^verbatim>\<open>(?i)url\s*\(\s*["']?https?://[^)"']+\<close>,
  \<^verbatim>\<open>(?i)<use[^>]+xlink:href\s*=\s*["']https?://\<close>,
  \<^verbatim>\<open>(?i)<use[^>]+href\s*=\s*["']https?://\<close>.
\<close>

definition re_ext_href :: re where
  "re_ext_href = seqs [ilit ''href'', ws, chr CHR ''='', ws, quote, https, Plus not_quote, quote]"

definition re_ext_xlink :: re where
  "re_ext_xlink =
     seqs [ilit ''xlink:href'', ws, chr CHR ''='', ws, quote, https, Plus not_quote, quote]"

definition re_foreign :: re where
  "re_foreign = seqs [ilit ''<foreignObject'', WordB]"

definition re_ext_url :: re where
  "re_ext_url =
     seqs [ilit ''url'', ws, chr CHR ''('', ws, Opt quote, https, Plus (none_of [CHR '')'', dq, sq])]"

definition re_use_xlink :: re where
  "re_use_xlink =
     seqs [ilit ''<use'', Plus (none_of ''>''), ilit ''xlink:href'', ws, chr CHR ''='', ws, quote, https]"

definition re_use_href :: re where
  "re_use_href =
     seqs [ilit ''<use'', Plus (none_of ''>''), ilit ''href'', ws, chr CHR ''='', ws, quote, https]"

definition externalRefPatterns :: "threatPattern list" where
  "externalRefPatterns =
     [\<lparr>pattern = re_ext_href, desc = ''external href'',
       threatType = ThreatExternalRef, matchLength = 100\<rparr>,
      \<lparr>pattern = re_ext_xlink, desc = ''external xlink:href'',
       threatType = ThreatExternalRef, matchLength = 100\<rparr>,
      \<lparr>pattern = re_foreign, desc = ''foreignObject element'',
       threatType = ThreatExternalRef, matchLength = 50\<rparr>,
      \<lparr>pattern = re_ext_url, desc = ''external URL in style'',
       threatType = ThreatExternalRef, matchLength = 100\<rparr>,
      \<lparr>pattern = re_use_xlink, desc = ''external use reference'',
       threatType = ThreatExternalRef, matchLength = 100\<rparr>,
      \<lparr>pattern = re_use_href, desc = ''external use reference'',
       threatType = ThreatExternalRef, matchLength = 100\<rparr>]"

text \<open>
  \<^verbatim>\<open>(?i)<animate\b\<close>, \<^verbatim>\<open>(?i)<animateTransform\b\<close>, \<^verbatim>\<open>(?i)<animateMotion\b\<close>,
  \<^verbatim>\<open>(?i)<animateColor\b\<close>, \<^verbatim>\<open>(?i)<set\b[^>]*\b(attributeName|to)\s*=\<close>.
\<close>

definition re_set :: re where
  "re_set =
     seqs [ilit ''<set'', WordB, Star (none_of ''>''), WordB,
           Group 1 (Alt (ilit ''attributeName'') (ilit ''to'')), ws, chr CHR ''='']"

definition animationPatterns :: "threatPattern list" where
  "animationPatterns =
     [\<lparr>pattern = seqs [ilit ''<animate'', WordB], desc = ''animate element'',
       threatType = ThreatAnimation, matchLength = 50\<rparr>,
      \<lparr>pattern = seqs [ilit ''<animateTransform'', WordB], desc = ''animateTransform element'',
       threatType = ThreatAnimation, matchLength = 50\<rparr>,
      \<lparr>pattern = seqs [ilit ''<animateMotion'', WordB], desc = ''animateMotion element'',
       threatType = ThreatAnimation, matchLength = 50\<rparr>,
      \<lparr>pattern = seqs [ilit ''<animateColor'', WordB], desc = ''animateColor element'',
       threatType = ThreatAnimation, matchLength = 50\<rparr>,
      \<lparr>pattern = re_set, desc = ''set element'',
       threatType = ThreatAnimation, matchLength = 50\<rparr>]"

text \<open>\<^verbatim>\<open>(?i)<style\b\<close>.\<close>

definition styleBlockPatterns :: "threatPattern list" where
  "styleBlockPatterns =
     [\<lparr>pattern = seqs [ilit ''<style'', WordB], desc = ''style element'',
       threatType = ThreatStyleBlock, matchLength = 50\<rparr>]"

text \<open>\<^verbatim>\<open>(?i)<a\b[^>]*\bhref\s*=\<close>.\<close>

definition re_link :: re where
  "re_link =
     seqs [ilit ''<a'', WordB, Star (none_of ''>''), WordB, ilit ''href'', ws, chr CHR ''='']"

definition linkPatterns :: "threatPattern list" where
  "linkPatterns =
     [\<lparr>pattern = re_link, desc = ''anchor element with href'',
       threatType = ThreatLink, matchLength = 80\<rparr>]"

text \<open>\<^verbatim>\<open>(?i)<!DOCTYPE\b\<close>, \<^verbatim>\<open>(?i)<!ENTITY\b\<close>.\<close>

definition xmlEntityPatterns :: "threatPattern list" where
  "xmlEntityPatterns =
     [\<lparr>pattern = seqs [ilit ''<!DOCTYPE'', WordB], desc = ''DOCTYPE declaration'',
       threatType = ThreatXMLEntity, matchLength = 50\<rparr>,
      \<lparr>pattern = seqs [ilit ''<!ENTITY'', WordB], desc = ''ENTITY declaration'',
       threatType = ThreatXMLEntity, matchLength = 50\<rparr>]"

section \<open>Scanner\<close>

datatype ScanLevel = ScanLevelStrict | ScanLevelStandard

definition patternsForLevel :: "ScanLevel \<Rightarrow> threatPattern list" where
  "patternsForLevel level =
     scriptPatterns @ eventHandlerPatterns @ externalRefPatterns @ xmlEntityPatterns
       @ (if level = ScanLevelStrict
          then animationPatterns @ styleBlockPatterns @ linkPatterns else [])"

text \<open>
  What can go wrong: a write to a nil map panics, and a file or directory that cannot be
  read gives an error with a message.
\<close>

datatype error = NilMapPanic | Err string

definition new_result :: "string \<Rightarrow> Result" where
  "new_result filePath =
     \<lparr>FilePath = filePath, IsSecure = True, Threats = [], ThreatCounts = Some Map.empty,
      Errors = []\<rparr>"

definition display_match :: "nat \<Rightarrow> string \<Rightarrow> string" where
  "display_match maxLen m = (if length m > maxLen then take maxLen m @ ''...'' else m)"

text \<open>
  The body of the inner loop of \<^verbatim>\<open>ScanContentWithLevel\<close>, for one match: the threat
  with the match cut for display, then the three updates of the result.
\<close>

definition threat_of :: "threatPattern \<Rightarrow> string \<Rightarrow> Threat" where
  "threat_of p m =
     (let maxLen = (if matchLength p = 0 then 50 else matchLength p)
      in \<lparr>Type = threatType p, Description = desc p, Match = display_match maxLen m\<rparr>)"

definition record_threat :: "threatPattern \<Rightarrow> Result \<Rightarrow> string \<Rightarrow> error + Result" where
  "record_threat p r m =
     (case ThreatCounts r of
        None \<Rightarrow> Inl NilMapPanic
      | Some counts \<Rightarrow>
          Inr (r\<lparr>Threats := Threats r @ [threat_of p m],
                 ThreatCounts := Some (map_incr counts (threatType p)),
                 IsSecure := False\<rparr>))"

fun record_matches :: "threatPattern \<Rightarrow> Result \<Rightarrow> string list \<Rightarrow> error + Result" where
  "record_matches p r [] = Inr r"
| "record_matches p r (m # ms) =
     (case record_threat p r m of Inl e \<Rightarrow> Inl e | Inr r' \<Rightarrow> record_matches p r' ms)"

fun scan_patterns :: "string \<Rightarrow> Result \<Rightarrow> threatPattern list \<Rightarrow> error + Result" where
  "scan_patterns content r [] = Inr r"
| "scan_patterns content r (p # ps) =
     (case record_matches p r (FindAllString (pattern p) content) of
        Inl e \<Rightarrow> Inl e
      | Inr r' \<Rightarrow> scan_patterns content r' ps)"

text \<open>The \<^verbatim>\<open>*Result\<close> argument may be nil (\<open>None\<close>); then a fresh result is made.\<close>

definition ScanContentWithLevel :: "string \<Rightarrow> Result option \<Rightarrow> ScanLevel \<Rightarrow> error + Result" where
  "ScanContentWithLevel content result level =
     scan_patterns content (case result of None \<Rightarrow> new_result [] | Some r \<Rightarrow> r)
       (patternsForLevel level)"

definition ScanContent :: "string \<Rightarrow> Result option \<Rightarrow> error + Result" where
  "ScanContent content result = ScanContentWithLevel content result ScanLevelStrict"

text \<open>
  The file system as the scanner sees it: \<^verbatim>\<open>os.ReadFile\<close> and \<^verbatim>\<open>os.ReadDir\<close> give an
  error message or the content (the entries, each a name and whether it is a
  directory); \<^verbatim>\<open>filepath.WalkDir\<close> gives the error the callback is handed first, or
  else the entries visited (path, name, is a directory), in order;
  \<^verbatim>\<open>filepath.Join\<close> and \<^verbatim>\<open>os.WriteFile\<close> are as they are.
\<close>

record filesystem =
  ReadFile :: "string \<Rightarrow> string + string"
  ReadDir :: "string \<Rightarrow> string + (string \<times> bool) list"
  WalkDir :: "string \<Rightarrow> string + (string \<times> string \<times> bool) list"
  Join :: "string \<Rightarrow> string \<Rightarrow> string"
  WriteFile :: "string \<Rightarrow> string \<Rightarrow> string option"

text \<open>
  \<^verbatim>\<open>strings.HasSuffix(strings.ToLower(name), ".svg")\<close>. Only the letters A to Z are
  lowered here: no other rune lowers to a byte of \<^verbatim>\<open>.svg\<close>.
\<close>

definition ToLower :: "string \<Rightarrow> string" where
  "ToLower s = map (\<lambda>c. if c \<in> set uppers then other_case c else c) s"

definition HasSuffix :: "string \<Rightarrow> string \<Rightarrow> bool" where
  "HasSuffix s suffix \<longleftrightarrow>
     length suffix \<le> length s \<and> drop (length s - length suffix) s = suffix"

definition ListSVGFiles :: "filesystem \<Rightarrow> string \<Rightarrow> string + string list" where
  "ListSVGFiles fs dirPath =
     (case ReadDir fs dirPath of
        Inl err \<Rightarrow> Inl err
      | Inr entries \<Rightarrow>
          Inr (map (\<lambda>e. Join fs dirPath (fst e))
                 (filter (\<lambda>e. \<not> snd e \<and> HasSuffix (ToLower (fst e)) ''.svg'') entries)))"

definition ListSVGFilesRecursive :: "filesystem \<Rightarrow> string \<Rightarrow> string + string list" where
  "ListSVGFilesRecursive fs dirPath =
     (case WalkDir fs dirPath of
        Inl err \<Rightarrow> Inl err
      | Inr entries \<Rightarrow>
          Inr (map fst
                 (filter (\<lambda>e. \<not> snd (snd e) \<and> HasSuffix (ToLower (fst (snd e))) ''.svg'') entries)))"

definition SVGWithLevel :: "filesystem \<Rightarrow> string \<Rightarrow> ScanLevel \<Rightarrow> error + Result" where
  "SVGWithLevel fs filePath level =
     (let result = new_result filePath in
      case ReadFile fs filePath of
        Inl err \<Rightarrow> Inl (Err (''failed to read file: '' @ err))
      | Inr content \<Rightarrow> ScanContentWithLevel content (Some result) level)"

definition SVG :: "filesystem \<Rightarrow> string \<Rightarrow> error + Result" where
  "SVG fs filePath = SVGWithLevel fs filePath ScanLevelStrict"

text \<open>
  The loops of \<^verbatim>\<open>Directory\<close> and \<^verbatim>\<open>DirectoryRecursive\<close>. They differ in the result
  they append for a file that cannot be read: \<^verbatim>\<open>Directory\<close> leaves its count map nil,
  \<^verbatim>\<open>DirectoryRecursive\<close> makes one. A panic is not an error value and ends the loop.
\<close>

fun scan_files ::
  "filesystem \<Rightarrow> tmap option \<Rightarrow> Result list \<Rightarrow> string list \<Rightarrow> error + Result list" where
  "scan_files fs counts results [] = Inr results"
| "scan_files fs counts results (filePath # files) =
     (case SVG fs filePath of
        Inl NilMapPanic \<Rightarrow> Inl NilMapPanic
      | Inl (Err msg) \<Rightarrow>
          scan_files fs counts
            (results @ [\<lparr>FilePath = filePath, IsSecure = False, Threats = [],
                          ThreatCounts = counts, Errors = [msg]\<rparr>])
            files
      | Inr result \<Rightarrow> scan_files fs counts (results @ [result]) files)"

definition Directory :: "filesystem \<Rightarrow> string \<Rightarrow> error + Result list" where
  "Directory fs dirPath =
     (case ListSVGFiles fs dirPath of
        Inl err \<Rightarrow> Inl (Err (''failed to read directory: '' @ err))
      | Inr files \<Rightarrow> scan_files fs None [] files)"

definition DirectoryRecursive :: "filesystem \<Rightarrow> string \<Rightarrow> error + Result list" where
  "DirectoryRecursive fs dirPath =
     (case ListSVGFilesRecursive fs dirPath of
        Inl err \<Rightarrow> Inl (Err (''failed to read directory: '' @ err))
      | Inr files \<Rightarrow> scan_files fs (Some Map.empty) [] files)"

section \<open>Sanitizer\<close>

record SanitizeOptions =
  RemoveScripts :: bool
  RemoveEventHandlers :: bool
  RemoveExternalRefs :: bool
  RemoveAll :: bool

definition DefaultSanitizeOptions :: SanitizeOptions where
  "DefaultSanitizeOptions =
     \<lparr>RemoveScripts = False, RemoveEventHandlers = False, RemoveExternalRefs = False,
      RemoveAll = True\<rparr>"

record SanitizeResult =
  InputPath :: string
  OutputPath :: string
  ThreatsRemoved :: "Threat list"
  Sanitized :: bool
  Error :: "string option"

record sanitizePattern =
  spattern :: re
  replacement :: "titem list"
  sdesc :: string
  sthreatType :: ThreatType

text \<open>
  \<^verbatim>\<open>(?is)<script\b[^>]*>.*?</script>\<close> and \<^verbatim>\<open>(?i)<script\b[^>]*/>\<close>, replaced by nothing;
  \<^verbatim>\<open>(?i)(href\s*=\s*["'])javascript:[^"']*["']\<close>,
  \<^verbatim>\<open>(?i)(href\s*=\s*["'])vbscript:[^"']*["']\<close> and
  \<^verbatim>\<open>(?i)(href\s*=\s*["'])data:\s*text/html[^"']*["']\<close>, replaced by \<^verbatim>\<open>$1#"\<close>.
\<close>

definition href_open :: re where
  "href_open = Group 1 (seqs [ilit ''href'', ws, chr CHR ''='', ws, quote])"

definition hash_dq :: "titem list" where
  "hash_dq = [Ref 1, Txt (''#'' @ [dq])]"

definition rm_script_element :: re where
  "rm_script_element =
     seqs [ilit ''<script'', WordB, Star (none_of ''>''), chr CHR ''>'', Lazy dot_s, ilit ''</script>'']"

definition rm_javascript :: re where
  "rm_javascript = seqs [href_open, ilit ''javascript:'', Star not_quote, quote]"

definition rm_vbscript :: re where
  "rm_vbscript = seqs [href_open, ilit ''vbscript:'', Star not_quote, quote]"

definition rm_data_html :: re where
  "rm_data_html = seqs [href_open, ilit ''data:'', ws, ilit ''text/html'', Star not_quote, quote]"

definition scriptRemovalPatterns :: "sanitizePattern list" where
  "scriptRemovalPatterns =
     [\<lparr>spattern = rm_script_element, replacement = [], sdesc = ''script element'',
       sthreatType = ThreatScript\<rparr>,
      \<lparr>spattern = re_script_selfclosing, replacement = [],
       sdesc = ''self-closing script element'', sthreatType = ThreatScript\<rparr>,
      \<lparr>spattern = rm_javascript, replacement = hash_dq, sdesc = ''javascript: URI in href'',
       sthreatType = ThreatScript\<rparr>,
      \<lparr>spattern = rm_vbscript, replacement = hash_dq, sdesc = ''vbscript: URI in href'',
       sthreatType = ThreatScript\<rparr>,
      \<lparr>spattern = rm_data_html, replacement = hash_dq, sdesc = ''data:text/html URI'',
       sthreatType = ThreatScript\<rparr>]"

text \<open>The three event handler patterns of the scanner, replaced by nothing.\<close>

definition eventHandlerRemovalPatterns :: "sanitizePattern list" where
  "eventHandlerRemovalPatterns =
     [\<lparr>spattern = re_handler_dq, replacement = [], sdesc = ''event handler attribute'',
       sthreatType = ThreatEventHandler\<rparr>,
      \<lparr>spattern = re_handler_sq, replacement = [], sdesc = ''event handler attribute'',
       sthreatType = ThreatEventHandler\<rparr>,
      \<lparr>spattern = re_handler_bare, replacement = [],
       sdesc = ''unquoted event handler attribute'', sthreatType = ThreatEventHandler\<rparr>]"

text \<open>\<^verbatim>\<open>(?i)<!DOCTYPE[^>]*>\<close> and \<^verbatim>\<open>(?i)<!ENTITY[^>]*>\<close>, replaced by nothing.\<close>

definition xmlEntityRemovalPatterns :: "sanitizePattern list" where
  "xmlEntityRemovalPatterns =
     [\<lparr>spattern = seqs [ilit ''<!DOCTYPE'', Star (none_of ''>''), chr CHR ''>''],
       replacement = [], sdesc = ''DOCTYPE declaration'', sthreatType = ThreatXMLEntity\<rparr>,
      \<lparr>spattern = seqs [ilit ''<!ENTITY'', Star (none_of ''>''), chr CHR ''>''],
       replacement = [], sdesc = ''ENTITY declaration'', sthreatType = ThreatXMLEntity\<rparr>]"

text \<open>
  \<^verbatim>\<open>(?i)(href\s*=\s*["'])https?://[^"']*["']\<close> and
  \<^verbatim>\<open>(?i)(xlink:href\s*=\s*["'])https?://[^"']*["']\<close>, replaced by \<^verbatim>\<open>$1#"\<close>;
  \<^verbatim>\<open>(?is)<foreignObject\b[^>]*>.*?</foreignObject>\<close> and
  \<^verbatim>\<open>(?i)<foreignObject\b[^>]*/>\<close>, replaced by nothing;
  \<^verbatim>\<open>(?i)(url\s*\(\s*["']?)https?://[^)"']+([)"']?)\<close>, replaced by \<^verbatim>\<open>${1}none${2}\<close>.
\<close>

definition rm_ext_href :: re where
  "rm_ext_href = seqs [href_open, https, Star not_quote, quote]"

definition rm_ext_xlink :: re where
  "rm_ext_xlink =
     seqs [Group 1 (seqs [ilit ''xlink:href'', ws, chr CHR ''='', ws, quote]),
           https, Star not_quote, quote]"

definition rm_foreign_element :: re where
  "rm_foreign_element =
     seqs [ilit ''<foreignObject'', WordB, Star (none_of ''>''), chr CHR ''>'', Lazy dot_s,
           ilit ''</foreignObject>'']"

definition rm_foreign_selfclosing :: re where
  "rm_foreign_selfclosing = seqs [ilit ''<foreignObject'', WordB, Star (none_of ''>''), ilit ''/>'']"

definition rm_ext_url :: re where
  "rm_ext_url =
     seqs [Group 1 (seqs [ilit ''url'', ws, chr CHR ''('', ws, Opt quote]),
           https, Plus (none_of [CHR '')'', dq, sq]),
           Group 2 (Opt (one_of [CHR '')'', dq, sq]))]"

definition externalRefRemovalPatterns :: "sanitizePattern list" where
  "externalRefRemovalPatterns =
     [\<lparr>spattern = rm_ext_href, replacement = hash_dq, sdesc = ''external href'',
       sthreatType = ThreatExternalRef\<rparr>,
      \<lparr>spattern = rm_ext_xlink, replacement = hash_dq, sdesc = ''external xlink:href'',
       sthreatType = ThreatExternalRef\<rparr>,
      \<lparr>spattern = rm_foreign_element, replacement = [], sdesc = ''foreignObject element'',
       sthreatType = ThreatExternalRef\<rparr>,
      \<lparr>spattern = rm_foreign_selfclosing, replacement = [],
       sdesc = ''self-closing foreignObject'', sthreatType = ThreatExternalRef\<rparr>,
      \<lparr>spattern = rm_ext_url, replacement = [Ref 1, Txt ''none'', Ref 2],
       sdesc = ''external URL in style'', sthreatType = ThreatExternalRef\<rparr>]"

definition selected_patterns :: "SanitizeOptions \<Rightarrow> sanitizePattern list" where
  "selected_patterns opts =
     (if RemoveAll opts \<or> RemoveScripts opts then scriptRemovalPatterns else [])
     @ (if RemoveAll opts \<or> RemoveEventHandlers opts then eventHandlerRemovalPatterns else [])
     @ (if RemoveAll opts \<or> RemoveExternalRefs opts then externalRefRemovalPatterns else [])
     @ (if RemoveAll opts then xmlEntityRemovalPatterns else [])"

text \<open>One round of the loop of \<^verbatim>\<open>SanitizeContent\<close>; the state is \<open>(sanitized, threats)\<close>.\<close>

definition removed_threat :: "sanitizePattern \<Rightarrow> string \<Rightarrow> Threat" where
  "removed_threat p m =
     \<lparr>Type = sthreatType p, Description = sdesc p, Match = display_match 80 m\<rparr>"

definition apply_pattern :: "string \<times> Threat list \<Rightarrow> sanitizePattern \<Rightarrow> string \<times> Threat list" where
  "apply_pattern st p =
     (case st of (sanitized, threats) \<Rightarrow>
        (ReplaceAllString (spattern p) sanitized (replacement p),
         threats @ map (removed_threat p) (FindAllString (spattern p) sanitized)))"

definition SanitizeContent :: "string \<Rightarrow> SanitizeOptions \<Rightarrow> string \<times> Threat list" where
  "SanitizeContent content opts = foldl apply_pattern (content, []) (selected_patterns opts)"

text \<open>
  \<^verbatim>\<open>Sanitize\<close> reads the input file, sanitizes and writes. The result is the
  \<^verbatim>\<open>SanitizeResult\<close> and, when the write was reached, the path and the text written.
\<close>

definition Sanitize ::
  "filesystem \<Rightarrow> string \<Rightarrow> string \<Rightarrow> SanitizeOptions \<Rightarrow> SanitizeResult \<times> (string \<times> string) option" where
  "Sanitize fs inputPath outputPath opts =
     (let result = \<lparr>InputPath = inputPath, OutputPath = outputPath, ThreatsRemoved = [],
                     Sanitized = False, Error = None\<rparr>
      in case ReadFile fs inputPath of
           Inl err \<Rightarrow> (result\<lparr>Error := Some (''failed to read input file: '' @ err)\<rparr>, None)
         | Inr content \<Rightarrow>
             (case SanitizeContent content opts of (sanitized, threats) \<Rightarrow>
                (let result1 = result\<lparr>ThreatsRemoved := threats, Sanitized := (length threats > 0)\<rparr>
                 in case WriteFile fs outputPath sanitized of
                      Some err \<Rightarrow>
                        (result1\<lparr>Error := Some (''failed to write output file: '' @ err)\<rparr>,
                         Some (outputPath, sanitized))
                    | None \<Rightarrow> (result1, Some (outputPath, sanitized)))))"

section \<open>Report generation\<close>

text \<open>\<^verbatim>\<open>type Status string\<close> and its four constants.\<close>

type_synonym Status = string

definition StatusGo :: Status where "StatusGo = ''GO''"
definition StatusNoGo :: Status where "StatusNoGo = ''NO-GO''"
definition StatusWarn :: Status where "StatusWarn = ''WARN''"
definition StatusSkip :: Status where "StatusSkip = ''SKIP''"

record KVPair =
  Key :: string
  Value :: string
  Icon :: string

record ListItem =
  Text :: string
  ItemIcon :: string
  ItemStatus :: Status

record ContentBlock =
  BlockType :: string
  Title :: string
  Pairs :: "KVPair list"
  Items :: "ListItem list"
  Content :: string

record TaskResult =
  TaskID :: string
  TaskStatus :: Status
  TaskSeverity :: string
  Detail :: string

record TeamSection =
  ID :: string
  Name :: string
  SectionStatus :: Status
  Verdict :: string
  Tasks :: "TaskResult list"
  ContentBlocks :: "ContentBlock list"

record TeamReport =
  Schema :: string
  ReportTitle :: string
  Project :: string
  Version :: string
  Phase :: string
  Tags :: "(string \<times> string) list"
  SummaryBlocks :: "ContentBlock list"
  Teams :: "TeamSection list"
  FooterBlocks :: "ContentBlock list"
  Status :: Status
  GeneratedAt :: string
  GeneratedBy :: string

text \<open>The three icons of the report, as the UTF-8 bytes of the source file.\<close>

definition icon_red :: string where
  "icon_red = [CHR 0xF0, CHR 0x9F, CHR 0x94, CHR 0xB4]"

definition icon_yellow :: string where
  "icon_yellow = [CHR 0xF0, CHR 0x9F, CHR 0x9F, CHR 0xA1]"

definition icon_green :: string where
  "icon_green = [CHR 0xF0, CHR 0x9F, CHR 0x9F, CHR 0xA2]"

text \<open>\<^verbatim>\<open>fmt.Sprintf("%d", n)\<close>: the decimal digits, with a sign for a negative number.\<close>

definition digit_char :: "nat \<Rightarrow> char" where
  "digit_char d = ''0123456789'' ! d"

fun digits :: "nat \<Rightarrow> string" where
  "digits n = (if n < 10 then [digit_char n] else digits (n div 10) @ [digit_char (n mod 10)])"

definition formatInt :: "int \<Rightarrow> string" where
  "formatInt n = (if n < 0 then CHR ''-'' # digits (nat (- n)) else digits (nat n))"

text \<open>
  The counting loop of \<^verbatim>\<open>GenerateReport\<close>: one pass over the results that counts the
  successful ones, counts the threats by type and collects all of them. The state is
  \<open>(secureFiles, threatsByType, allThreats)\<close>.
\<close>

type_synonym tally = "int \<times> tmap \<times> Threat list"

definition tally_threat :: "tally \<Rightarrow> Threat \<Rightarrow> tally" where
  "tally_threat st t =
     (case st of (secureFiles, byType, allThreats) \<Rightarrow>
        (secureFiles, map_incr byType (Type t), allThreats @ [t]))"

definition tally_result :: "tally \<Rightarrow> Result \<Rightarrow> tally" where
  "tally_result st r =
     (case st of (secureFiles, byType, allThreats) \<Rightarrow>
        foldl tally_threat
          (if IsSuccess r then secureFiles + 1 else secureFiles, byType, allThreats)
          (Threats r))"

definition tally_all :: "Result list \<Rightarrow> tally" where
  "tally_all results = foldl tally_result (0, Map.empty, []) results"

definition overall_status :: "tmap \<Rightarrow> Threat list \<Rightarrow> Status" where
  "overall_status threatsByType allThreats =
     (if length allThreats > 0 then
        (let hasCritical = (map_get threatsByType ThreatScript > 0
                            \<or> map_get threatsByType ThreatEventHandler > 0);
             hasHigh = (map_get threatsByType ThreatExternalRef > 0
                        \<or> map_get threatsByType ThreatXMLEntity > 0)
         in if hasCritical \<or> hasHigh then StatusNoGo else StatusWarn)
      else StatusGo)"

definition summary_blocks :: "int \<Rightarrow> int \<Rightarrow> Threat list \<Rightarrow> ContentBlock list" where
  "summary_blocks totalFiles secureFiles allThreats =
     [\<lparr>BlockType = ''kv_pairs'', Title = '''',
       Pairs =
         [\<lparr>Key = ''Files Scanned'', Value = formatInt totalFiles, Icon = ''''\<rparr>,
          \<lparr>Key = ''Secure Files'', Value = formatInt secureFiles, Icon = ''''\<rparr>,
          \<lparr>Key = ''Files with Threats'', Value = formatInt (totalFiles - secureFiles), Icon = ''''\<rparr>,
          \<lparr>Key = ''Total Threats'', Value = formatInt (int (length allThreats)), Icon = ''''\<rparr>],
       Items = [], Content = ''''\<rparr>]"

text \<open>The table \<^verbatim>\<open>threatCategories\<close>: id, name, threat type, severity.\<close>

definition threatCategories :: "(string \<times> string \<times> ThreatType \<times> string) list" where
  "threatCategories =
     [(''script-detection'', ''Script Detection'', ThreatScript, ''critical''),
      (''event-handler-detection'', ''Event Handler Detection'', ThreatEventHandler, ''critical''),
      (''external-ref-detection'', ''External Reference Detection'', ThreatExternalRef, ''high''),
      (''xml-entity-detection'', ''XML Entity Detection'', ThreatXMLEntity, ''high''),
      (''animation-detection'', ''Animation Detection'', ThreatAnimation, ''medium''),
      (''style-block-detection'', ''Style Block Detection'', ThreatStyleBlock, ''low''),
      (''link-detection'', ''Link Detection'', ThreatLink, ''medium'')]"

definition finding_icon :: "string \<Rightarrow> string" where
  "finding_icon severity =
     (if severity = ''medium'' then icon_yellow
      else if severity = ''low'' then icon_green
      else icon_red)"

definition finding_items :: "Result list \<Rightarrow> ThreatType \<Rightarrow> string \<Rightarrow> ListItem list" where
  "finding_items results tt severity =
     concat (map (\<lambda>r.
       map (\<lambda>t. \<lparr>Text = FilePath r @ '': '' @ Description t,
                  ItemIcon = finding_icon severity, ItemStatus = ''''\<rparr>)
           (filter (\<lambda>t. Type t = tt) (Threats r))) results)"

definition limit_items :: "ListItem list \<Rightarrow> ListItem list" where
  "limit_items items =
     (if length items > 10
      then take 10 items @ [\<lparr>Text = ''and more...'', ItemIcon = ''...'', ItemStatus = ''''\<rparr>]
      else items)"

definition team_section ::
  "Result list \<Rightarrow> tmap \<Rightarrow> string \<times> string \<times> ThreatType \<times> string \<Rightarrow> TeamSection" where
  "team_section results threatsByType cat =
     (case cat of (cid, cname, tt, severity) \<Rightarrow>
        (let count = map_get threatsByType tt in
         if count = 0 then
           \<lparr>ID = cid, Name = cname, SectionStatus = StatusGo, Verdict = '''',
            Tasks = [\<lparr>TaskID = ''scan'', TaskStatus = StatusGo, TaskSeverity = '''',
                      Detail = ''No threats detected''\<rparr>],
            ContentBlocks = []\<rparr>
         else
           (let st = (if severity = ''critical'' \<or> severity = ''high'' then StatusNoGo
                      else if severity = ''medium'' then StatusWarn
                      else StatusWarn);
                items = finding_items results tt severity
            in \<lparr>ID = cid, Name = cname, SectionStatus = st, Verdict = '''',
                Tasks = [\<lparr>TaskID = ''scan'', TaskStatus = st, TaskSeverity = severity,
                          Detail = formatInt count @ '' threat(s) detected''\<rparr>],
                ContentBlocks =
                  (if length items > 0
                   then [\<lparr>BlockType = ''list'', Title = ''Findings'', Pairs = [],
                          Items = limit_items items, Content = ''''\<rparr>]
                   else [])\<rparr>)))"

text \<open>
  The footer: each \<^verbatim>\<open>if\<close> of the source appends one pair, numbered by \<^verbatim>\<open>actionNum\<close>.
  \<open>add_action\<close> is one such \<^verbatim>\<open>if\<close>; the state is \<open>(actionItems, actionNum)\<close>.
\<close>

definition add_action ::
  "bool \<Rightarrow> string \<Rightarrow> string \<Rightarrow> KVPair list \<times> int \<Rightarrow> KVPair list \<times> int" where
  "add_action cond icon text st =
     (case st of (actionItems, actionNum) \<Rightarrow>
        if cond
        then (actionItems @ [\<lparr>Key = formatInt actionNum, Value = text, Icon = icon\<rparr>], actionNum + 1)
        else (actionItems, actionNum))"

definition action_items :: "tmap \<Rightarrow> KVPair list" where
  "action_items c =
     fst (add_action (map_get c ThreatLink > 0) icon_yellow
            ''Remove anchor elements for static images (MEDIUM)''
         (add_action (map_get c ThreatStyleBlock > 0) icon_green
            ''Consider inlining styles and removing style blocks (LOW)''
         (add_action (map_get c ThreatAnimation > 0) icon_yellow
            ''Remove animation elements for static images (MEDIUM)''
         (add_action (map_get c ThreatXMLEntity > 0) icon_yellow
            ''Remove DOCTYPE and ENTITY declarations (HIGH)''
         (add_action (map_get c ThreatExternalRef > 0) icon_red
            ''Remove external references and foreignObject elements (HIGH)''
         (add_action (map_get c ThreatScript > 0 \<or> map_get c ThreatEventHandler > 0) icon_red
            ''Remove all script elements and event handlers (CRITICAL)''
         ([], 1)))))))"

definition footer_blocks :: "tmap \<Rightarrow> Threat list \<Rightarrow> ContentBlock list" where
  "footer_blocks threatsByType allThreats =
     (if length allThreats > 0 then
        (let actionItems = action_items threatsByType in
         if length actionItems > 0
         then [\<lparr>BlockType = ''kv_pairs'', Title = ''ACTION ITEMS'', Pairs = actionItems,
                Items = [], Content = ''''\<rparr>]
         else [])
      else [])"

text \<open>
  \<^verbatim>\<open>GenerateReport\<close>. The clock reading \<^verbatim>\<open>time.Now().UTC().Format(time.RFC3339)\<close> is
  the parameter \<open>now\<close>.
\<close>

definition GenerateReport :: "string \<Rightarrow> Result list \<Rightarrow> string \<Rightarrow> string \<Rightarrow> TeamReport" where
  "GenerateReport now results project version =
     (let totalFiles = int (length results) in
      case tally_all results of (secureFiles, threatsByType, allThreats) \<Rightarrow>
        \<lparr>Schema = ''https://raw.githubusercontent.com/agentplexus/multi-agent-spec/main/schema/report/team-report.schema.json'',
         ReportTitle = ''SVG SECURITY SCAN REPORT'',
         Project = project,
         Version = version,
         Phase = ''SECURITY VALIDATION'',
         Tags = [],
         SummaryBlocks = summary_blocks totalFiles secureFiles allThreats,
         Teams = map (team_section results threatsByType) threatCategories,
         FooterBlocks = footer_blocks threatsByType allThreats,
         Status = overall_status threatsByType allThreats,
         GeneratedAt = now,
         GeneratedBy = ''brandkit security-scan''\<rparr>)"

section \<open>Notions the properties are stated with\<close>

text \<open>
  The number of threats of a category in a list, the threats of a whole batch, and the
  categories of a batch with a nonzero count.
\<close>

definition count_type :: "ThreatType \<Rightarrow> Threat list \<Rightarrow> int" where
  "count_type X ts = int (length (filter (\<lambda>t. Type t = X) ts))"

definition all_threats :: "Result list \<Rightarrow> Threat list" where
  "all_threats results = concat (map Threats results)"

definition all_types :: "ThreatType list" where
  "all_types = [ThreatScript, ThreatEventHandler, ThreatExternalRef, ThreatXMLEntity,
                ThreatAnimation, ThreatStyleBlock, ThreatLink]"

definition nonzero_categories :: "Result list \<Rightarrow> ThreatType list" where
  "nonzero_categories results =
     filter (\<lambda>X. count_type X (all_threats results) > 0) all_types"

text \<open>
  The lines of the report's footer, and the table the footer is compared with: the groups
  of categories that share an action line, each with its icon and its text, in the order
  of the source.
\<close>

definition action_lines :: "TeamReport \<Rightarrow> KVPair list" where
  "action_lines rep = concat (map Pairs (FooterBlocks rep))"

definition action_groups :: "(ThreatType list \<times> string \<times> string) list" where
  "action_groups =
     [([ThreatScript, ThreatEventHandler], icon_red,
         ''Remove all script elements and event handlers (CRITICAL)''),
      ([ThreatExternalRef], icon_red,
         ''Remove external references and foreignObject elements (HIGH)''),
      ([ThreatXMLEntity], icon_yellow,
         ''Remove DOCTYPE and ENTITY declarations (HIGH)''),
      ([ThreatAnimation], icon_yellow,
         ''Remove animation elements for static images (MEDIUM)''),
      ([ThreatStyleBlock], icon_green,
         ''Consider inlining styles and removing style blocks (LOW)''),
      ([ThreatLink], icon_yellow,
         ''Remove anchor elements for static images (MEDIUM)'')]"

definition nonzero_groups :: "Result list \<Rightarrow> (ThreatType list \<times> string \<times> string) list" where
  "nonzero_groups results =
     filter (\<lambda>g. list_ex (\<lambda>X. count_type X (all_threats results) > 0) (fst g)) action_groups"

fun number_from :: "int \<Rightarrow> (ThreatType list \<times> string \<times> string) list \<Rightarrow> KVPair list" where
  "number_from n [] = []"
| "number_from n (g # gs) =
     \<lparr>Key = formatInt n, Value = snd (snd g), Icon = fst (snd g)\<rparr> # number_from (n + 1) gs"

text \<open>A result that holds one threat of each of the given categories.\<close>

definition sample_threat :: "ThreatType \<Rightarrow> Threat" where
  "sample_threat X = \<lparr>Type = X, Description = ''sample'', Match = ''m''\<rparr>"

definition sample_result :: "ThreatType list \<Rightarrow> Result" where
  "sample_result Xs =
     \<lparr>FilePath = ''a.svg'', IsSecure = (Xs = []), Threats = map sample_threat Xs,
      ThreatCounts = Some (foldl map_incr Map.empty Xs), Errors = []\<rparr>"

text \<open>
  The threats a list of patterns finds in a content, in the order of the scan; a result
  whose counts agree with its list of threats; the result recorded for a file that cannot
  be read, and what a directory scan returns for one file.
\<close>

definition found :: "string \<Rightarrow> threatPattern list \<Rightarrow> Threat list" where
  "found content ps =
     concat (map (\<lambda>p. map (threat_of p) (FindAllString (pattern p) content)) ps)"

definition consistent :: "Result \<Rightarrow> bool" where
  "consistent r \<longleftrightarrow> (\<forall>X. count_get (ThreatCounts r) X = count_type X (Threats r))"

definition read_error_result :: "tmap option \<Rightarrow> string \<Rightarrow> string \<Rightarrow> Result" where
  "read_error_result counts filePath err =
     \<lparr>FilePath = filePath, IsSecure = False, Threats = [], ThreatCounts = counts,
      Errors = [''failed to read file: '' @ err]\<rparr>"

definition file_outcome :: "filesystem \<Rightarrow> tmap option \<Rightarrow> string \<Rightarrow> Result \<Rightarrow> bool" where
  "file_outcome fs counts filePath r \<longleftrightarrow>
     (case ReadFile fs filePath of
        Inl err \<Rightarrow> r = read_error_result counts filePath err
      | Inr content \<Rightarrow>
          ScanContentWithLevel content (Some (new_result filePath)) ScanLevelStrict = Inr r)"

text \<open>A result argument a scan can write to: nil, or a result whose count map is not nil.\<close>

definition usable :: "Result option \<Rightarrow> bool" where
  "usable result \<longleftrightarrow> (case result of None \<Rightarrow> True | Some r \<Rightarrow> ThreatCounts r \<noteq> None)"

text \<open>
  A directory \<^verbatim>\<open>d\<close> with three SVG files, a text file and a subdirectory; \<^verbatim>\<open>d/b.svg\<close>
  cannot be read.
\<close>

definition sample_fs :: filesystem where
  "sample_fs =
     \<lparr>ReadFile = (\<lambda>path. if path = ''d/a.svg'' then Inr ''<style>''
                       else if path = ''d/c.SVG'' then Inr ''<svg/>''
                       else Inl ''permission denied''),
      ReadDir = (\<lambda>path. if path = ''d''
                      then Inr [(''a.svg'', False), (''b.svg'', False), (''sub.svg'', True),
                                (''notes.txt'', False), (''c.SVG'', False)]
                      else Inl ''no such directory''),
      WalkDir = (\<lambda>path. if path = ''d''
                      then Inr [(''d'', ''d'', True), (''d/a.svg'', ''a.svg'', False),
                                (''d/b.svg'', ''b.svg'', False), (''d/c.SVG'', ''c.SVG'', False)]
                      else Inl ''no such directory''),
      Join = (\<lambda>dir name. dir @ ''/'' @ name),
      WriteFile = (\<lambda>path content. None)\<rparr>"




text \<open>Options and contents the properties are evaluated at.\<close>

definition scripts_only :: SanitizeOptions where
  "scripts_only =
     \<lparr>RemoveScripts = True, RemoveEventHandlers = False, RemoveExternalRefs = False,
      RemoveAll = False\<rparr>"

definition external_refs_only :: SanitizeOptions where
  "external_refs_only =
     \<lparr>RemoveScripts = False, RemoveEventHandlers = False, RemoveExternalRefs = True,
      RemoveAll = False\<rparr>"

definition scenarioD :: string where
  "scenarioD = ''<svg><style>.a{fill:red}</style><rect/></svg>''"

definition scenarioA :: string where
  "scenarioA = ''<svg><script>alert(1)</script><rect/></svg>''"

definition multiline_script :: string where
  "multiline_script = ''<svg><script>'' @ [nl] @ ''alert(1)'' @ [nl] @ ''</script><rect/></svg>''"

definition single_quoted_href :: string where
  "single_quoted_href = ''<a href='' @ [sq] @ ''https://phish.example/'' @ [sq] @ ''>x</a>''"

definition scenarioE :: string where
  "scenarioE =
     ''<svg><a href='' @ [dq] @ ''https://phish.example/'' @ [dq] @ ''><image href='' @ [dq]
       @ ''https://cdn.example/x.png'' @ [dq] @ ''/></a></svg>''"

definition scenarioC :: string where
  "scenarioC =
     ''<svg onclick='' @ [dq] @ ''x()'' @ [dq] @ ''><rect onload='' @ [dq] @ ''y()'' @ [dq]
       @ ''/></svg>''"

definition handlers_only :: SanitizeOptions where
  "handlers_only =
     \<lparr>RemoveScripts = False, RemoveEventHandlers = True, RemoveExternalRefs = False,
      RemoveAll = False\<rparr>"


text \<open>
  An expression every match of which consumes at least one byte, and the length of the
  text left in a state.
\<close>

fun consumes :: "re \<Rightarrow> bool" where
  "consumes Eps = False"
| "consumes (Sym P) = True"
| "consumes (Seq a b) = (consumes a \<or> consumes b)"
| "consumes (Alt a b) = (consumes a \<and> consumes b)"
| "consumes (Star a) = False"
| "consumes (Lazy a) = False"
| "consumes WordB = False"
| "consumes (Group n a) = consumes a"

definition left :: "rstate \<Rightarrow> nat" where
  "left st = length (fst (snd st))"

section \<open>The seven threat types are distinct\<close>

lemmas threat_defs =
  ThreatScript_def ThreatEventHandler_def ThreatExternalRef_def ThreatAnimation_def
  ThreatStyleBlock_def ThreatLink_def ThreatXMLEntity_def

lemma threat_distinct [simp]:
  "ThreatScript \<noteq> ThreatEventHandler" "ThreatScript \<noteq> ThreatExternalRef"
  "ThreatScript \<noteq> ThreatAnimation" "ThreatScript \<noteq> ThreatStyleBlock"
  "ThreatScript \<noteq> ThreatLink" "ThreatScript \<noteq> ThreatXMLEntity"
  "ThreatEventHandler \<noteq> ThreatScript" "ThreatEventHandler \<noteq> ThreatExternalRef"
  "ThreatEventHandler \<noteq> ThreatAnimation" "ThreatEventHandler \<noteq> ThreatStyleBlock"
  "ThreatEventHandler \<noteq> ThreatLink" "ThreatEventHandler \<noteq> ThreatXMLEntity"
  "ThreatExternalRef \<noteq> ThreatScript" "ThreatExternalRef \<noteq> ThreatEventHandler"
  "ThreatExternalRef \<noteq> ThreatAnimation" "ThreatExternalRef \<noteq> ThreatStyleBlock"
  "ThreatExternalRef \<noteq> ThreatLink" "ThreatExternalRef \<noteq> ThreatXMLEntity"
  "ThreatAnimation \<noteq> ThreatScript" "ThreatAnimation \<noteq> ThreatEventHandler"
  "ThreatAnimation \<noteq> ThreatExternalRef" "ThreatAnimation \<noteq> ThreatStyleBlock"
  "ThreatAnimation \<noteq> ThreatLink" "ThreatAnimation \<noteq> ThreatXMLEntity"
  "ThreatStyleBlock \<noteq> ThreatScript" "ThreatStyleBlock \<noteq> ThreatEventHandler"
  "ThreatStyleBlock \<noteq> ThreatExternalRef" "ThreatStyleBlock \<noteq> ThreatAnimation"
  "ThreatStyleBlock \<noteq> ThreatLink" "ThreatStyleBlock \<noteq> ThreatXMLEntity"
  "ThreatLink \<noteq> ThreatScript" "ThreatLink \<noteq> ThreatEventHandler"
  "ThreatLink \<noteq> ThreatExternalRef" "ThreatLink \<noteq> ThreatAnimation"
  "ThreatLink \<noteq> ThreatStyleBlock" "ThreatLink \<noteq> ThreatXMLEntity"
  "ThreatXMLEntity \<noteq> ThreatScript" "ThreatXMLEntity \<noteq> ThreatEventHandler"
  "ThreatXMLEntity \<noteq> ThreatExternalRef" "ThreatXMLEntity \<noteq> ThreatAnimation"
  "ThreatXMLEntity \<noteq> ThreatStyleBlock" "ThreatXMLEntity \<noteq> ThreatLink"
  by (simp_all add: threat_defs)

section \<open>Properties of the matcher\<close>

text \<open>
  A match hands the continuation a state that is no longer than the one it started from,
  and a strictly shorter one when the expression has to consume a byte (\<open>consumes\<close>).
  Every pattern of both catalogs has to, so no match of theirs is empty.
\<close>

lemma bt_le:
  "bt r st k = Some x \<Longrightarrow> \<exists>st'. k st' = Some x \<and> left st' \<le> left st"
proof (induction r st k arbitrary: x rule: bt.induct)
  case (1 st k)
  then have "k st = Some x" by simp
  then show ?case by blast
next
  case (2 P p s cs k)
  then obtain c s' where "s = c # s'" "k (Some c, s', cs) = Some x"
    by (cases s) (auto split: if_splits)
  then show ?case by (intro exI [of _ "(Some c, s', cs)"]) (simp add: left_def)
next
  case (3 a b st k)
  from "3.prems" have "bt a st (\<lambda>st'. bt b st' k) = Some x" by simp
  from "3.IH"(2) [OF this] obtain st1 where "bt b st1 k = Some x" "left st1 \<le> left st" by blast
  moreover from "3.IH"(1) [OF this(1)] obtain st2 where "k st2 = Some x" "left st2 \<le> left st1"
    by blast
  ultimately show ?case by (meson le_trans)
next
  case (4 a b st k)
  show ?case
  proof (cases "bt a st k")
    case None
    with "4.prems" have "bt b st k = Some x" by simp
    from "4.IH"(2) [OF None this] show ?thesis .
  next
    case (Some y)
    with "4.prems" have "bt a st k = Some x" by simp
    from "4.IH"(1) [OF this] show ?thesis .
  qed
next
  case (5 a st k)
  let ?K = "\<lambda>st'. if length (fst (snd st')) < length (fst (snd st)) then bt (Star a) st' k else None"
  show ?case
  proof (cases "bt a st ?K")
    case None
    with "5.prems" have "k st = Some x" by simp
    then show ?thesis by (intro exI [of _ st]) simp
  next
    case (Some y)
    with "5.prems" have y: "bt a st ?K = Some x" by simp
    from "5.IH"(2) [OF y] obtain st1 where s1: "?K st1 = Some x" "left st1 \<le> left st" by blast
    then have lt: "length (fst (snd st1)) < length (fst (snd st))" and b: "bt (Star a) st1 k = Some x"
      by (auto split: if_splits)
    from "5.IH"(1) [OF lt b] obtain st2 where "k st2 = Some x" "left st2 \<le> left st1" by blast
    with s1(2) show ?thesis by (meson le_trans)
  qed
next
  case (6 a st k)
  let ?K = "\<lambda>st'. if length (fst (snd st')) < length (fst (snd st)) then bt (Lazy a) st' k else None"
  show ?case
  proof (cases "k st")
    case (Some y)
    with "6.prems" have "k st = Some x" by simp
    then show ?thesis by (intro exI [of _ st]) simp
  next
    case None
    with "6.prems" have y: "bt a st ?K = Some x" by simp
    from "6.IH"(2) [OF None y] obtain st1 where s1: "?K st1 = Some x" "left st1 \<le> left st" by blast
    then have lt: "length (fst (snd st1)) < length (fst (snd st))" and b: "bt (Lazy a) st1 k = Some x"
      by (auto split: if_splits)
    from "6.IH"(1) [OF None lt b] obtain st2 where "k st2 = Some x" "left st2 \<le> left st1" by blast
    with s1(2) show ?thesis by (meson le_trans)
  qed
next
  case (7 p s cs k)
  then have "k (p, s, cs) = Some x" by (simp split: if_splits)
  then show ?case by blast
next
  case (8 n a p s cs k)
  from "8.prems" have
    "bt a (p, s, cs) (\<lambda>(p', s', cs'). k (p', s', (n, take (length s - length s') s) # cs')) = Some x"
    by simp
  from "8.IH" [OF this] obtain st1 where
    s1: "(case st1 of (p', s', cs') \<Rightarrow> k (p', s', (n, take (length s - length s') s) # cs')) = Some x"
      "left st1 \<le> left (p, s, cs)" by blast
  obtain p1 r1 c1 where st1: "st1 = (p1, r1, c1)" by (cases st1) auto
  with s1 show ?case
    by (intro exI [of _ "(p1, r1, (n, take (length s - length r1) s) # c1)"]) (simp add: left_def)
qed

lemma bt_lt:
  "consumes r \<Longrightarrow> bt r st k = Some x \<Longrightarrow> \<exists>st'. k st' = Some x \<and> left st' < left st"
proof (induction r arbitrary: st k x)
  case (Sym P)
  obtain p s cs where st: "st = (p, s, cs)" by (cases st) auto
  with Sym.prems(2) obtain c s' where "s = c # s'" "k (Some c, s', cs) = Some x"
    by (cases s) (auto split: if_splits)
  with st show ?case by (intro exI [of _ "(Some c, s', cs)"]) (simp add: left_def)
next
  case (Seq a b)
  from Seq.prems(2) have ab: "bt a st (\<lambda>st'. bt b st' k) = Some x" by simp
  show ?case
  proof (cases "consumes a")
    case True
    from Seq.IH(1) [OF True ab] obtain st1 where "bt b st1 k = Some x" "left st1 < left st" by blast
    moreover from bt_le [OF this(1)] obtain st2 where "k st2 = Some x" "left st2 \<le> left st1" by blast
    ultimately show ?thesis by (meson le_less_trans)
  next
    case False
    with Seq.prems(1) have cb: "consumes b" by simp
    from bt_le [OF ab] obtain st1 where "bt b st1 k = Some x" "left st1 \<le> left st" by blast
    moreover from Seq.IH(2) [OF cb this(1)] obtain st2 where "k st2 = Some x" "left st2 < left st1"
      by blast
    ultimately show ?thesis by (meson less_le_trans)
  qed
next
  case (Alt a b)
  show ?case
  proof (cases "bt a st k")
    case None
    with Alt.prems have "bt b st k = Some x" "consumes b" by simp_all
    from Alt.IH(2) [OF this(2) this(1)] show ?thesis .
  next
    case (Some y)
    with Alt.prems have "bt a st k = Some x" "consumes a" by simp_all
    from Alt.IH(1) [OF this(2) this(1)] show ?thesis .
  qed
next
  case (Group n a)
  obtain p s cs where st: "st = (p, s, cs)" by (cases st) auto
  from Group.prems(2) have
    "bt a (p, s, cs) (\<lambda>(p', s', cs'). k (p', s', (n, take (length s - length s') s) # cs')) = Some x"
    by (simp add: st)
  moreover have "consumes a" using Group.prems(1) by simp
  ultimately obtain st1 where
    s1: "(case st1 of (p', s', cs') \<Rightarrow> k (p', s', (n, take (length s - length s') s) # cs')) = Some x"
      "left st1 < left (p, s, cs)" using Group.IH by blast
  obtain p1 r1 c1 where st1: "st1 = (p1, r1, c1)" by (cases st1) auto
  with s1 st show ?case
    by (intro exI [of _ "(p1, r1, (n, take (length s - length r1) s) # c1)"]) (simp add: left_def)
qed simp_all

lemma hit_nonempty:
  "consumes r \<Longrightarrow> Hit m cs \<in> set (segs r n p s) \<Longrightarrow> m \<noteq> []"
proof (induction s arbitrary: n p)
  case Nil
  show ?case
  proof (cases "bt r (p, [], []) Some")
    case None
    then have "segs r n p [] = []" by simp
    with Nil.prems(2) show ?thesis by (metis empty_iff empty_set)
  next
    case (Some st)
    from bt_lt [OF Nil.prems(1) Some] show ?thesis by (auto simp: left_def)
  qed
next
  case (Cons c s)
  show ?case
  proof (cases n)
    case (Suc n')
    with Cons.prems have "Hit m cs \<in> set (segs r n' (Some c) s)" by simp
    with Cons.IH Cons.prems(1) show ?thesis by blast
  next
    case 0
    show ?thesis
    proof (cases "bt r (p, c # s, []) Some")
      case None
      with Cons.prems 0 have "Hit m cs \<in> set (segs r 0 (Some c) s)" by simp
      with Cons.IH Cons.prems(1) show ?thesis by blast
    next
      case (Some st)
      obtain p' s' cs' where st: "st = (p', s', cs')" by (cases st) auto
      let ?m = "take (length (c # s) - length s') (c # s)"
      from bt_lt [OF Cons.prems(1) Some] st have lt: "length s' < length (c # s)"
        by (auto simp: left_def)
      then have ne: "?m \<noteq> []" by auto
      have "segs r 0 p (c # s) = Hit ?m cs' # segs r (length ?m - 1) (Some c) s"
        using Some st lt by (simp add: Let_def)
      with Cons.prems(2) 0
      have "Hit m cs = Hit ?m cs' \<or> Hit m cs \<in> set (segs r (length ?m - 1) (Some c) s)"
        by simp
      with ne Cons.IH Cons.prems(1) show ?thesis by (metis seg.inject(2))
    qed
  qed
qed

lemma catalog_consumes:
  "list_all (\<lambda>p. consumes (pattern p)) (patternsForLevel ScanLevelStrict)"
  "list_all (\<lambda>p. consumes (spattern p)) (selected_patterns DefaultSanitizeOptions)"
  by code_simp+

lemma hits_iff: "m \<in> set (hits gs) \<longleftrightarrow> (\<exists>cs. Hit m cs \<in> set gs)"
  by (induction gs rule: hits.induct) auto

lemma catalog_matches_nonempty:
  assumes "p \<in> set (patternsForLevel lvl)" "m \<in> set (FindAllString (pattern p) c)"
  shows "m \<noteq> []"
proof -
  from assms(1) have "p \<in> set (patternsForLevel ScanLevelStrict)"
    by (auto simp: patternsForLevel_def)
  with catalog_consumes(1) have "consumes (pattern p)" by (simp add: list_all_iff)
  moreover from assms(2) obtain cs where "Hit m cs \<in> set (segs (pattern p) 0 None c)"
    by (auto simp: FindAllString_def hits_iff)
  ultimately show ?thesis by (rule hit_nonempty)
qed

lemma removal_matches_nonempty:
  assumes "p \<in> set (selected_patterns opts)" "Hit m cs \<in> set (segs (spattern p) 0 None c)"
  shows "m \<noteq> []"
proof -
  from assms(1) have "p \<in> set (selected_patterns DefaultSanitizeOptions)"
    by (auto simp: selected_patterns_def DefaultSanitizeOptions_def split: if_splits)
  with catalog_consumes(2) have "consumes (spattern p)" by (simp add: list_all_iff)
  then show ?thesis using assms(2) by (rule hit_nonempty)
qed

section \<open>Properties of the report\<close>

lemma map_get_incr: "map_get (map_incr m k) X = map_get m X + (if X = k then 1 else 0)"
  by (simp add: map_get_def map_incr_def)

lemma tally_threat_simp:
  "tally_threat (n, m, acc) t = (n, map_incr m (Type t), acc @ [t])"
  by (simp add: tally_threat_def)

lemma tally_result_simp:
  "tally_result (n, m, acc) r =
     foldl tally_threat (if IsSuccess r then n + 1 else n, m, acc) (Threats r)"
  by (simp add: tally_result_def)

lemma foldl_tally_threat:
  "foldl tally_threat (n, m, acc) ts = (n', m', acc') \<Longrightarrow>
     n' = n \<and> acc' = acc @ ts \<and> (\<forall>X. map_get m' X = map_get m X + count_type X ts)"
proof (induction ts arbitrary: m acc)
  case Nil
  then show ?case by (simp add: count_type_def)
next
  case (Cons t ts)
  from Cons.prems have "foldl tally_threat (n, map_incr m (Type t), acc @ [t]) ts = (n', m', acc')"
    by (simp add: tally_threat_simp)
  from Cons.IH [OF this] show ?case
    by (auto simp: map_get_incr count_type_def)
qed

lemma foldl_tally_result:
  "foldl tally_result (n, m, acc) rs = (n', m', acc') \<Longrightarrow>
     acc' = acc @ all_threats rs \<and> (\<forall>X. map_get m' X = map_get m X + count_type X (all_threats rs))"
proof (induction rs arbitrary: n m acc)
  case Nil
  then show ?case by (simp add: count_type_def all_threats_def)
next
  case (Cons r rs)
  obtain n1 m1 acc1 where step: "tally_result (n, m, acc) r = (n1, m1, acc1)"
    by (cases "tally_result (n, m, acc) r") auto
  then have s1: "acc1 = acc @ Threats r \<and> (\<forall>X. map_get m1 X = map_get m X + count_type X (Threats r))"
    using foldl_tally_threat [of "if IsSuccess r then n + 1 else n" m acc "Threats r" n1 m1 acc1]
    by (simp add: tally_result_simp)
  from Cons.prems step have "foldl tally_result (n1, m1, acc1) rs = (n', m', acc')" by simp
  from Cons.IH [OF this] s1 show ?case
    by (auto simp: count_type_def all_threats_def)
qed

lemma tally_all_eq:
  "tally_all results = (n, m, acc) \<Longrightarrow>
     acc = all_threats results \<and> (\<forall>X. map_get m X = count_type X (all_threats results))"
  using foldl_tally_result [of 0 Map.empty "[]" results n m acc]
  by (simp add: tally_all_def map_get_def)

lemma count_type_pos: "count_type X ts > 0 \<longleftrightarrow> (\<exists>t\<in>set ts. Type t = X)"
  by (auto simp: count_type_def filter_empty_conv)

lemma Status_GenerateReport:
  "Status (GenerateReport now results project version) =
     (if all_threats results = [] then StatusGo
      else if count_type ThreatScript (all_threats results) > 0
            \<or> count_type ThreatEventHandler (all_threats results) > 0
            \<or> count_type ThreatExternalRef (all_threats results) > 0
            \<or> count_type ThreatXMLEntity (all_threats results) > 0 then StatusNoGo
      else StatusWarn)"
proof -
  obtain n m acc where t: "tally_all results = (n, m, acc)"
    by (cases "tally_all results") auto
  from tally_all_eq [OF t] t show ?thesis
    by (simp add: GenerateReport_def overall_status_def Let_def)
qed

lemma add_action_simp:
  "add_action c icon text (items, n) =
     (if c then (items @ [\<lparr>Key = formatInt n, Value = text, Icon = icon\<rparr>], n + 1) else (items, n))"
  by (simp add: add_action_def)

lemma action_items_eq:
  "action_items m =
     number_from 1 (filter (\<lambda>g. list_ex (\<lambda>X. map_get m X > 0) (fst g)) action_groups)"
  by (simp add: action_items_def add_action_simp action_groups_def)

lemma status_distinct:
  "StatusGo \<noteq> StatusNoGo" "StatusGo \<noteq> StatusWarn" "StatusGo \<noteq> StatusSkip"
  "StatusNoGo \<noteq> StatusWarn" "StatusNoGo \<noteq> StatusSkip" "StatusWarn \<noteq> StatusSkip"
  "StatusNoGo \<noteq> StatusGo" "StatusWarn \<noteq> StatusGo" "StatusSkip \<noteq> StatusGo"
  "StatusWarn \<noteq> StatusNoGo" "StatusSkip \<noteq> StatusNoGo" "StatusSkip \<noteq> StatusWarn"
  by (simp_all add: StatusGo_def StatusNoGo_def StatusWarn_def StatusSkip_def)

lemma nonzero_groups_empty:
  "nonzero_groups results = [] \<longleftrightarrow> list_all (\<lambda>t. Type t \<notin> set all_types) (all_threats results)"
proof -
  have "nonzero_groups results = [] \<longleftrightarrow> (\<forall>X\<in>set all_types. \<not> count_type X (all_threats results) > 0)"
    by (simp add: nonzero_groups_def action_groups_def filter_empty_conv all_types_def)
  also have "\<dots> \<longleftrightarrow> (\<forall>X\<in>set all_types. \<forall>t\<in>set (all_threats results). Type t \<noteq> X)"
    by (simp add: count_type_pos)
  also have "\<dots> \<longleftrightarrow> list_all (\<lambda>t. Type t \<notin> set all_types) (all_threats results)"
    by (auto simp: list_all_iff)
  finally show ?thesis .
qed

lemma FooterBlocks_GenerateReport:
  "FooterBlocks (GenerateReport now results project version) =
     (if all_threats results = [] \<or> nonzero_groups results = [] then []
      else [\<lparr>BlockType = ''kv_pairs'', Title = ''ACTION ITEMS'',
             Pairs = number_from 1 (nonzero_groups results), Items = [], Content = ''''\<rparr>])"
proof -
  obtain n m acc where t: "tally_all results = (n, m, acc)"
    by (cases "tally_all results") auto
  from tally_all_eq [OF t] have acc: "acc = all_threats results"
    and m: "\<And>X. map_get m X = count_type X (all_threats results)" by auto
  have items: "action_items m = number_from 1 (nonzero_groups results)"
    by (simp add: action_items_eq nonzero_groups_def m)
  have nonempty: "number_from 1 gs = [] \<longleftrightarrow> gs = []" for gs
    by (cases gs) auto
  show ?thesis using t
    by (simp add: GenerateReport_def footer_blocks_def Let_def items acc nonempty)
qed

lemma formatInt_small: "formatInt 0 = ''0''" "formatInt 1 = ''1''" "formatInt 2 = ''2''"
  by (simp_all add: formatInt_def digit_char_def)

text \<open>
  Claim C2. The overall status of a report is GO when the batch has no threat at all,
  NO-GO when some threat of the batch is a Script, EventHandler, ExternalRef or XMLEntity
  threat, and WARN when the batch has a threat and every threat of it is an Animation,
  StyleBlock or Link threat; WARN and NO-GO are different values. So a batch whose only
  threat is a StyleBlock threat gives WARN, and a batch with a Script threat gives NO-GO
  whatever else it holds.
\<close>

theorem GenerateReport_status:
  "(all_threats results = [] \<longrightarrow>
      Status (GenerateReport now results project version) = StatusGo)
   \<and> ((\<exists>t \<in> set (all_threats results).
          Type t \<in> {ThreatScript, ThreatEventHandler, ThreatExternalRef, ThreatXMLEntity}) \<longrightarrow>
      Status (GenerateReport now results project version) = StatusNoGo)
   \<and> (all_threats results \<noteq> []
        \<and> (\<forall>t \<in> set (all_threats results).
              Type t \<in> {ThreatAnimation, ThreatStyleBlock, ThreatLink}) \<longrightarrow>
      Status (GenerateReport now results project version) = StatusWarn)
   \<and> StatusWarn \<noteq> StatusNoGo"
proof -
  let ?ts = "all_threats results"
  have a: "?ts = [] \<longrightarrow> Status (GenerateReport now results project version) = StatusGo"
    by (simp add: Status_GenerateReport)
  have b: "(\<exists>t \<in> set ?ts. Type t \<in> {ThreatScript, ThreatEventHandler, ThreatExternalRef, ThreatXMLEntity})
       \<longrightarrow> Status (GenerateReport now results project version) = StatusNoGo"
    by (auto simp: Status_GenerateReport count_type_pos)
  have c: "?ts \<noteq> [] \<and> (\<forall>t \<in> set ?ts. Type t \<in> {ThreatAnimation, ThreatStyleBlock, ThreatLink})
       \<longrightarrow> Status (GenerateReport now results project version) = StatusWarn"
    by (auto simp: Status_GenerateReport count_type_pos)
  have d: "StatusWarn \<noteq> StatusNoGo" by (simp add: status_distinct)
  from a b c d show ?thesis by (intro conjI)
qed

text \<open>The three cases of C2 at concrete batches.\<close>

theorem GenerateReport_status_witness:
  "Status (GenerateReport ''t'' [] ''p'' ''v'') = StatusGo
   \<and> Status (GenerateReport ''t'' [sample_result [ThreatStyleBlock, ThreatScript]] ''p'' ''v'') = StatusNoGo
   \<and> Status (GenerateReport ''t'' [sample_result [], sample_result [ThreatStyleBlock]] ''p'' ''v'') = StatusWarn"
  using GenerateReport_status [of "[]" "''t''" "''p''" "''v''"]
    GenerateReport_status [of "[sample_result [ThreatStyleBlock, ThreatScript]]" "''t''" "''p''" "''v''"]
    GenerateReport_status [of "[sample_result [], sample_result [ThreatStyleBlock]]" "''t''" "''p''" "''v''"]
  by (simp add: all_threats_def sample_result_def sample_threat_def)

text \<open>
  Claim C10. The status of a generated report is GO, NO-GO or WARN and never SKIP; the
  report of the empty batch has status GO and counts zero files.
\<close>

theorem GenerateReport_never_skip:
  "Status (GenerateReport now results project version) \<in> {StatusGo, StatusNoGo, StatusWarn}
   \<and> Status (GenerateReport now results project version) \<noteq> StatusSkip
   \<and> Status (GenerateReport now [] project version) = StatusGo
   \<and> map (\<lambda>b. map (\<lambda>p. (Key p, Value p)) (Pairs b))
         (SummaryBlocks (GenerateReport now [] project version))
       = [[(''Files Scanned'', ''0''), (''Secure Files'', ''0''),
           (''Files with Threats'', ''0''), (''Total Threats'', ''0'')]]"
proof -
  have s: "Status (GenerateReport now results project version) \<in> {StatusGo, StatusNoGo, StatusWarn}"
    by (simp add: Status_GenerateReport)
  with status_distinct have k: "Status (GenerateReport now results project version) \<noteq> StatusSkip"
    by auto
  have e: "Status (GenerateReport now [] project version) = StatusGo"
    by (simp add: Status_GenerateReport all_threats_def)
  have f: "map (\<lambda>b. map (\<lambda>p. (Key p, Value p)) (Pairs b))
         (SummaryBlocks (GenerateReport now [] project version))
       = [[(''Files Scanned'', ''0''), (''Secure Files'', ''0''),
           (''Files with Threats'', ''0''), (''Total Threats'', ''0'')]]"
    by (simp add: GenerateReport_def tally_all_def summary_blocks_def formatInt_small)
  from s k e f show ?thesis by (intro conjI)
qed

text \<open>
  Claim C8, as stated, asks for one action line per category with a nonzero count. A batch
  with one Script and one EventHandler threat has two such categories and one line: the
  source has a single line for scripts and event handlers together.
\<close>

theorem action_items_one_line_counterexample:
  "Status (GenerateReport ''t'' [sample_result [ThreatScript, ThreatEventHandler]] ''p'' ''v'') \<noteq> StatusGo
   \<and> nonzero_categories [sample_result [ThreatScript, ThreatEventHandler]]
        = [ThreatScript, ThreatEventHandler]
   \<and> map Value (action_lines (GenerateReport ''t'' [sample_result [ThreatScript, ThreatEventHandler]] ''p'' ''v''))
        = [''Remove all script elements and event handlers (CRITICAL)'']"
  by (simp add: Status_GenerateReport action_lines_def FooterBlocks_GenerateReport all_threats_def
        sample_result_def sample_threat_def nonzero_groups_def nonzero_categories_def all_types_def
        action_groups_def count_type_def status_distinct)

text \<open>
  Claim C8, amended. When the status is not GO and some threat of the batch has one of the
  seven declared types, the footer is one block, titled ACTION ITEMS, with one line per
  group of categories that has a nonzero count, numbered from 1, in the fixed order of
  \<open>action_groups\<close>: scripts and event handlers together (CRITICAL), external references
  (HIGH), XML entities (HIGH), animations (MEDIUM), style blocks (LOW), links (MEDIUM).
  When every threat of the batch has a type outside the seven (the source's guard
  \<^verbatim>\<open>if len(actionItems) > 0\<close>), no group has a nonzero count and there is no footer.
\<close>

theorem GenerateReport_action_items:
  assumes "Status (GenerateReport now results project version) \<noteq> StatusGo"
  shows "FooterBlocks (GenerateReport now results project version) =
           (if list_all (\<lambda>t. Type t \<notin> set all_types) (all_threats results) then []
            else [\<lparr>BlockType = ''kv_pairs'', Title = ''ACTION ITEMS'',
                   Pairs = number_from 1 (nonzero_groups results), Items = [], Content = ''''\<rparr>])
         \<and> (nonzero_groups results = []
              \<longleftrightarrow> list_all (\<lambda>t. Type t \<notin> set all_types) (all_threats results))"
proof -
  from assms have ne: "all_threats results \<noteq> []"
    by (auto simp: Status_GenerateReport)
  then show ?thesis
    by (simp add: FooterBlocks_GenerateReport nonzero_groups_empty)
qed

text \<open>
  The footer of a batch with a Link, a Script and a StyleBlock threat, and the report of a
  batch whose only threat has the type 7: status WARN and no footer.
\<close>

theorem GenerateReport_action_items_witness:
  "Status (GenerateReport ''t'' [sample_result [ThreatLink, ThreatScript, ThreatStyleBlock]] ''p'' ''v'') \<noteq> StatusGo
   \<and> map (\<lambda>p. (Key p, Value p))
       (action_lines (GenerateReport ''t'' [sample_result [ThreatLink, ThreatScript, ThreatStyleBlock]] ''p'' ''v''))
     = [(''1'', ''Remove all script elements and event handlers (CRITICAL)''),
        (''2'', ''Consider inlining styles and removing style blocks (LOW)''),
        (''3'', ''Remove anchor elements for static images (MEDIUM)'')]
   \<and> Status (GenerateReport ''t'' [sample_result [7]] ''p'' ''v'') = StatusWarn
   \<and> FooterBlocks (GenerateReport ''t'' [sample_result [7]] ''p'' ''v'') = []"
proof -
  have s: "Status (GenerateReport ''t'' [sample_result [ThreatLink, ThreatScript, ThreatStyleBlock]] ''p'' ''v'') \<noteq> StatusGo"
    by (simp add: Status_GenerateReport all_threats_def sample_result_def sample_threat_def
          count_type_def status_distinct)
  have g: "nonzero_groups [sample_result [ThreatLink, ThreatScript, ThreatStyleBlock]]
      = [action_groups ! 0, action_groups ! 4, action_groups ! 5]"
    by (simp add: nonzero_groups_def all_threats_def sample_result_def sample_threat_def
          count_type_def action_groups_def)
  have n: "\<not> list_all (\<lambda>t. Type t \<notin> set all_types)
             (all_threats [sample_result [ThreatLink, ThreatScript, ThreatStyleBlock]])"
    by (simp add: all_threats_def sample_result_def sample_threat_def all_types_def)
  have w: "Status (GenerateReport ''t'' [sample_result [7]] ''p'' ''v'') = StatusWarn"
    by (simp add: Status_GenerateReport all_threats_def sample_result_def sample_threat_def
          count_type_def threat_defs)
  have o: "list_all (\<lambda>t. Type t \<notin> set all_types) (all_threats [sample_result [7]])"
    by (simp add: all_threats_def sample_result_def sample_threat_def all_types_def threat_defs)
  have w': "Status (GenerateReport ''t'' [sample_result [7]] ''p'' ''v'') \<noteq> StatusGo"
    using w by (simp add: status_distinct)
  from GenerateReport_action_items [OF s] GenerateReport_action_items [OF w'] s n w o show ?thesis
    by (simp add: action_lines_def g action_groups_def formatInt_def digit_char_def)
qed

section \<open>Properties of the scanner\<close>

lemma count_type_append: "count_type X (xs @ ys) = count_type X xs + count_type X ys"
  by (simp add: count_type_def)

lemma found_append: "found c (ps @ qs) = found c ps @ found c qs"
  by (simp add: found_def)

lemma record_matches_ok:
  assumes "ThreatCounts r = Some m"
  shows "\<exists>r' m'. record_matches p r ms = Inr r' \<and> ThreatCounts r' = Some m'
           \<and> Threats r' = Threats r @ map (threat_of p) ms
           \<and> (\<forall>X. map_get m' X = map_get m X + count_type X (map (threat_of p) ms))
           \<and> IsSecure r' = (IsSecure r \<and> ms = [])
           \<and> FilePath r' = FilePath r \<and> Errors r' = Errors r"
  using assms
proof (induction ms arbitrary: r m)
  case Nil
  then show ?case by (simp add: count_type_def)
next
  case (Cons a ms)
  let ?r1 = "r\<lparr>Threats := Threats r @ [threat_of p a],
                ThreatCounts := Some (map_incr m (threatType p)), IsSecure := False\<rparr>"
  have step: "record_threat p r a = Inr ?r1"
    using Cons.prems by (simp add: record_threat_def)
  have c1: "ThreatCounts ?r1 = Some (map_incr m (threatType p))" by simp
  from Cons.IH [OF c1] obtain r' m' where
    IH: "record_matches p ?r1 ms = Inr r'" "ThreatCounts r' = Some m'"
      "Threats r' = Threats ?r1 @ map (threat_of p) ms"
      "\<forall>X. map_get m' X = map_get (map_incr m (threatType p)) X + count_type X (map (threat_of p) ms)"
      "IsSecure r' = (IsSecure ?r1 \<and> ms = [])"
      "FilePath r' = FilePath ?r1" "Errors r' = Errors ?r1"
    by blast
  have ty: "Type (threat_of p a) = threatType p" by (simp add: threat_of_def Let_def)
  show ?case
    using step IH ty by (auto simp: map_get_incr count_type_def)
qed

lemma scan_patterns_ok:
  assumes "ThreatCounts r = Some m"
  shows "\<exists>r' m'. scan_patterns c r ps = Inr r' \<and> ThreatCounts r' = Some m'
           \<and> Threats r' = Threats r @ found c ps
           \<and> (\<forall>X. map_get m' X = map_get m X + count_type X (found c ps))
           \<and> IsSecure r' = (IsSecure r \<and> found c ps = [])
           \<and> FilePath r' = FilePath r \<and> Errors r' = Errors r"
  using assms
proof (induction ps arbitrary: r m)
  case Nil
  then show ?case by (simp add: found_def count_type_def)
next
  case (Cons p ps)
  from record_matches_ok [OF Cons.prems, of p "FindAllString (pattern p) c"]
  obtain r1 m1 where
    s1: "record_matches p r (FindAllString (pattern p) c) = Inr r1" "ThreatCounts r1 = Some m1"
      "Threats r1 = Threats r @ map (threat_of p) (FindAllString (pattern p) c)"
      "\<forall>X. map_get m1 X = map_get m X + count_type X (map (threat_of p) (FindAllString (pattern p) c))"
      "IsSecure r1 = (IsSecure r \<and> FindAllString (pattern p) c = [])"
      "FilePath r1 = FilePath r" "Errors r1 = Errors r"
    by blast
  from Cons.IH [OF s1(2)] obtain r' m' where
    s2: "scan_patterns c r1 ps = Inr r'" "ThreatCounts r' = Some m'"
      "Threats r' = Threats r1 @ found c ps"
      "\<forall>X. map_get m' X = map_get m1 X + count_type X (found c ps)"
      "IsSecure r' = (IsSecure r1 \<and> found c ps = [])"
      "FilePath r' = FilePath r1" "Errors r' = Errors r1"
    by blast
  have f: "found c (p # ps) = map (threat_of p) (FindAllString (pattern p) c) @ found c ps"
    by (simp add: found_def)
  show ?case
    using s1 s2 by (auto simp: f count_type_append)
qed

lemma scan_patterns_nil_map:
  "ThreatCounts r0 = None \<Longrightarrow> scan_patterns c r0 ps = Inr r' \<Longrightarrow> r' = r0"
proof (induction ps)
  case Nil
  then show ?case by simp
next
  case (Cons p ps)
  show ?case
  proof (cases "FindAllString (pattern p) c")
    case Nil
    with Cons show ?thesis by simp
  next
    case (Cons m ms)
    with Cons.prems show ?thesis by (simp add: record_threat_def)
  qed
qed

lemma new_result_fields:
  "ThreatCounts (new_result f) = Some Map.empty" "Threats (new_result f) = []"
  "IsSecure (new_result f)" "FilePath (new_result f) = f" "Errors (new_result f) = []"
  by (simp_all add: new_result_def)

lemma scan_fresh:
  "\<exists>r. scan_patterns c (new_result f) ps = Inr r \<and> Threats r = found c ps
       \<and> consistent r \<and> IsSecure r = (found c ps = []) \<and> FilePath r = f \<and> Errors r = []"
proof -
  from scan_patterns_ok [OF new_result_fields(1), of c f ps]
  obtain r' m' where
    s: "scan_patterns c (new_result f) ps = Inr r'" "ThreatCounts r' = Some m'"
      "Threats r' = Threats (new_result f) @ found c ps"
      "\<forall>X. map_get m' X = map_get Map.empty X + count_type X (found c ps)"
      "IsSecure r' = (IsSecure (new_result f) \<and> found c ps = [])"
      "FilePath r' = FilePath (new_result f)" "Errors r' = Errors (new_result f)"
    by blast
  then show ?thesis
    by (auto simp: new_result_fields consistent_def count_get_def map_get_def)
qed

lemma ScanContentWithLevel_fresh:
  "\<exists>r. ScanContentWithLevel c None lvl = Inr r
       \<and> Threats r = found c (patternsForLevel lvl) \<and> consistent r
       \<and> IsSecure r = (found c (patternsForLevel lvl) = []) \<and> FilePath r = [] \<and> Errors r = []"
  using scan_fresh [of c "[]" "patternsForLevel lvl"]
  by (simp add: ScanContentWithLevel_def)

lemma ScanContentWithLevel_new:
  "\<exists>r. ScanContentWithLevel c (Some (new_result f)) lvl = Inr r
       \<and> Threats r = found c (patternsForLevel lvl) \<and> consistent r
       \<and> IsSecure r = (found c (patternsForLevel lvl) = []) \<and> FilePath r = f \<and> Errors r = []"
  using scan_fresh [of c f "patternsForLevel lvl"]
  by (simp add: ScanContentWithLevel_def)

lemma patterns_strict:
  "patternsForLevel ScanLevelStrict =
     patternsForLevel ScanLevelStandard @ animationPatterns @ styleBlockPatterns @ linkPatterns"
  by (simp add: patternsForLevel_def)

text \<open>
  Claim C3. For every content, scanned into a fresh result (or into a result a caller
  hands in whose count map is not nil), both levels return a result, and every threat the
  Standard scan reports is among the threats the Strict scan reports.
\<close>

theorem standard_subset_strict:
  assumes "usable result"
  shows "\<exists>r1 r2. ScanContentWithLevel c result ScanLevelStandard = Inr r1
           \<and> ScanContentWithLevel c result ScanLevelStrict = Inr r2
           \<and> set (Threats r1) \<subseteq> set (Threats r2)"
proof -
  define r0 where "r0 = (case result of None \<Rightarrow> new_result [] | Some r \<Rightarrow> r)"
  from assms obtain m where m: "ThreatCounts r0 = Some m"
    by (cases result) (auto simp: usable_def r0_def new_result_def)
  from scan_patterns_ok [OF m, of c "patternsForLevel ScanLevelStandard"]
  obtain r1 where r1: "scan_patterns c r0 (patternsForLevel ScanLevelStandard) = Inr r1"
    "Threats r1 = Threats r0 @ found c (patternsForLevel ScanLevelStandard)" by blast
  from scan_patterns_ok [OF m, of c "patternsForLevel ScanLevelStrict"]
  obtain r2 where r2: "scan_patterns c r0 (patternsForLevel ScanLevelStrict) = Inr r2"
    "Threats r2 = Threats r0 @ found c (patternsForLevel ScanLevelStrict)" by blast
  have "set (Threats r1) \<subseteq> set (Threats r2)"
    using r1(2) r2(2) by (auto simp: patterns_strict found_append)
  with r1(1) r2(1) show ?thesis
    by (simp add: ScanContentWithLevel_def r0_def)
qed

lemma scenarioD_found:
  "found scenarioD (patternsForLevel ScanLevelStandard) = []"
  "found scenarioD (patternsForLevel ScanLevelStrict) =
     [\<lparr>Type = ThreatStyleBlock, Description = ''style element'', Match = ''<style''\<rparr>]"
  by code_simp+

text \<open>C3 at the content of Scenario D, scanned into a fresh result.\<close>

theorem standard_subset_strict_witness:
  "usable None
   \<and> (\<exists>r1 r2. ScanContentWithLevel scenarioD None ScanLevelStandard = Inr r1
         \<and> ScanContentWithLevel scenarioD None ScanLevelStrict = Inr r2
         \<and> set (Threats r1) \<subseteq> set (Threats r2))"
proof -
  have u: "usable None" by (simp add: usable_def)
  from standard_subset_strict [OF u, of scenarioD] u show ?thesis by simp
qed

lemma SVGWithLevel_cases:
  "(\<exists>err. ReadFile fs f = Inl err \<and> SVGWithLevel fs f lvl = Inl (Err (''failed to read file: '' @ err)))
   \<or> (\<exists>c r. ReadFile fs f = Inr c \<and> SVGWithLevel fs f lvl = Inr r
         \<and> ScanContentWithLevel c (Some (new_result f)) lvl = Inr r \<and> consistent r)"
proof (cases "ReadFile fs f")
  case (Inl err)
  then show ?thesis by (simp add: SVGWithLevel_def)
next
  case (Inr c)
  with ScanContentWithLevel_new [of c f lvl] show ?thesis
    by (auto simp: SVGWithLevel_def)
qed

lemma scan_files_eq:
  "\<exists>rs. scan_files fs counts acc files = Inr (acc @ rs)
        \<and> list_all2 (file_outcome fs counts) files rs"
proof (induction files arbitrary: acc)
  case Nil
  then show ?case by simp
next
  case (Cons f files)
  from SVGWithLevel_cases [of fs f ScanLevelStrict] show ?case
  proof (elim disjE exE conjE)
    fix err
    assume rd: "ReadFile fs f = Inl err"
      and sv: "SVGWithLevel fs f ScanLevelStrict = Inl (Err (''failed to read file: '' @ err))"
    let ?e = "read_error_result counts f err"
    from Cons.IH [of "acc @ [?e]"] obtain rs where
      rs: "scan_files fs counts (acc @ [?e]) files = Inr ((acc @ [?e]) @ rs)"
        "list_all2 (file_outcome fs counts) files rs" by blast
    have "scan_files fs counts acc (f # files) = Inr (acc @ (?e # rs))"
      using sv rs(1) by (simp add: SVG_def read_error_result_def)
    moreover have "file_outcome fs counts f ?e" using rd by (simp add: file_outcome_def)
    ultimately show ?thesis using rs(2) by blast
  next
    fix c r
    assume rd: "ReadFile fs f = Inr c"
      and sv: "SVGWithLevel fs f ScanLevelStrict = Inr r"
      and sc: "ScanContentWithLevel c (Some (new_result f)) ScanLevelStrict = Inr r"
    from Cons.IH [of "acc @ [r]"] obtain rs where
      rs: "scan_files fs counts (acc @ [r]) files = Inr ((acc @ [r]) @ rs)"
        "list_all2 (file_outcome fs counts) files rs" by blast
    have "scan_files fs counts acc (f # files) = Inr (acc @ (r # rs))"
      using sv rs(1) by (simp add: SVG_def)
    moreover have "file_outcome fs counts f r" using rd sc by (simp add: file_outcome_def)
    ultimately show ?thesis using rs(2) by blast
  qed
qed

lemma file_outcome_consistent:
  assumes "file_outcome fs counts f r" "counts = None \<or> counts = Some Map.empty"
  shows "consistent r"
proof (cases "ReadFile fs f")
  case (Inl err)
  with assms show ?thesis
    by (auto simp: file_outcome_def read_error_result_def consistent_def count_get_def
          map_get_def count_type_def)
next
  case (Inr c)
  with assms(1) ScanContentWithLevel_new [of c f ScanLevelStrict] show ?thesis
    by (auto simp: file_outcome_def)
qed

lemma list_all2_consistent:
  assumes "list_all2 (file_outcome fs counts) files rs" "counts = None \<or> counts = Some Map.empty"
  shows "\<forall>r\<in>set rs. consistent r"
  using assms
  by (induction files rs rule: list_all2_induct) (auto dest: file_outcome_consistent)

lemma Directory_cases:
  "(\<exists>err. ListSVGFiles fs d = Inl err
           \<and> Directory fs d = Inl (Err (''failed to read directory: '' @ err)))
   \<or> (\<exists>files rs. ListSVGFiles fs d = Inr files \<and> Directory fs d = Inr rs
          \<and> list_all2 (file_outcome fs None) files rs)"
proof (cases "ListSVGFiles fs d")
  case (Inl err)
  then show ?thesis by (simp add: Directory_def)
next
  case (Inr files)
  with scan_files_eq [of fs None "[]" files] show ?thesis
    by (auto simp: Directory_def)
qed

lemma DirectoryRecursive_cases:
  "(\<exists>err. ListSVGFilesRecursive fs d = Inl err
           \<and> DirectoryRecursive fs d = Inl (Err (''failed to read directory: '' @ err)))
   \<or> (\<exists>files rs. ListSVGFilesRecursive fs d = Inr files \<and> DirectoryRecursive fs d = Inr rs
          \<and> list_all2 (file_outcome fs (Some Map.empty)) files rs)"
proof (cases "ListSVGFilesRecursive fs d")
  case (Inl err)
  then show ?thesis by (simp add: DirectoryRecursive_def)
next
  case (Inr files)
  with scan_files_eq [of fs "Some Map.empty" "[]" files] show ?thesis
    by (auto simp: DirectoryRecursive_def)
qed

text \<open>
  Claim C4. In every result a scan produces (\<^verbatim>\<open>ScanContentWithLevel\<close> on a fresh result,
  which always returns one; \<^verbatim>\<open>SVGWithLevel\<close>; every result of \<^verbatim>\<open>Directory\<close> and of
  \<^verbatim>\<open>DirectoryRecursive\<close>) the count stored for a category is the number of threats of
  that category in the list of threats; a scan into a result a caller hands in keeps the
  counts in step with the list when they were in step before.
\<close>

theorem counts_match_threats:
  "(\<exists>r. ScanContentWithLevel c None lvl = Inr r \<and> consistent r)
   \<and> (\<forall>r0 r. consistent r0 \<and> ScanContentWithLevel c (Some r0) lvl = Inr r \<longrightarrow> consistent r)
   \<and> (\<forall>r. SVGWithLevel fs f lvl = Inr r \<longrightarrow> consistent r)
   \<and> (\<forall>rs. Directory fs d = Inr rs \<longrightarrow> (\<forall>r\<in>set rs. consistent r))
   \<and> (\<forall>rs. DirectoryRecursive fs d = Inr rs \<longrightarrow> (\<forall>r\<in>set rs. consistent r))"
proof (intro conjI allI impI)
  show "\<exists>r. ScanContentWithLevel c None lvl = Inr r \<and> consistent r"
    using ScanContentWithLevel_fresh [of c lvl] by blast
next
  fix r0 r assume a: "consistent r0 \<and> ScanContentWithLevel c (Some r0) lvl = Inr r"
  show "consistent r"
  proof (cases "ThreatCounts r0")
    case None
    with a scan_patterns_nil_map [of r0 c "patternsForLevel lvl" r] show ?thesis
      by (auto simp: ScanContentWithLevel_def)
  next
    case (Some m)
    from scan_patterns_ok [OF Some, of c "patternsForLevel lvl"] obtain r' m' where
      s: "scan_patterns c r0 (patternsForLevel lvl) = Inr r'" "ThreatCounts r' = Some m'"
        "Threats r' = Threats r0 @ found c (patternsForLevel lvl)"
        "\<forall>X. map_get m' X = map_get m X + count_type X (found c (patternsForLevel lvl))"
      by blast
    from a s(1) have eq: "r' = r" by (simp add: ScanContentWithLevel_def)
    from a Some have "\<forall>X. map_get m X = count_type X (Threats r0)"
      by (simp add: consistent_def count_get_def)
    with s(2,3,4) eq show ?thesis
      by (simp add: consistent_def count_get_def count_type_append)
  qed
next
  fix r assume "SVGWithLevel fs f lvl = Inr r"
  with SVGWithLevel_cases [of fs f lvl] show "consistent r" by auto
next
  fix rs assume "Directory fs d = Inr rs"
  with Directory_cases [of fs d] obtain files where
    "list_all2 (file_outcome fs None) files rs" by auto
  then show "\<forall>r\<in>set rs. consistent r" by (rule list_all2_consistent) simp
next
  fix rs assume "DirectoryRecursive fs d = Inr rs"
  with DirectoryRecursive_cases [of fs d] obtain files where
    "list_all2 (file_outcome fs (Some Map.empty)) files rs" by auto
  then show "\<forall>r\<in>set rs. consistent r" by (rule list_all2_consistent) simp
qed

lemma sample_listing:
  "ListSVGFiles sample_fs ''d'' = Inr [''d/a.svg'', ''d/b.svg'', ''d/c.SVG'']"
  "ListSVGFilesRecursive sample_fs ''d'' = Inr [''d/a.svg'', ''d/b.svg'', ''d/c.SVG'']"
  by (simp_all add: ListSVGFiles_def ListSVGFilesRecursive_def sample_fs_def HasSuffix_def
        ToLower_def uppers_def lowers_def other_case_def)

lemma sample_found:
  "found ''<style>'' (patternsForLevel ScanLevelStrict) =
     [\<lparr>Type = ThreatStyleBlock, Description = ''style element'', Match = ''<style''\<rparr>]"
  "found ''<svg/>'' (patternsForLevel ScanLevelStrict) = []"
  by code_simp+

text \<open>
  Claim C9. When the directory can be listed, \<^verbatim>\<open>Directory\<close> and \<^verbatim>\<open>DirectoryRecursive\<close>
  return one result per listed file, in order: for a file that cannot be read, the result
  with the secure flag false and the read error as its only error (\<open>read_error_result\<close>);
  for every other file, the result of scanning its content at the Strict level.
\<close>

theorem directory_read_failures:
  "(ListSVGFiles fs d = Inr files \<longrightarrow>
      (\<exists>rs. Directory fs d = Inr rs \<and> list_all2 (file_outcome fs None) files rs))
   \<and> (ListSVGFilesRecursive fs d = Inr files \<longrightarrow>
      (\<exists>rs. DirectoryRecursive fs d = Inr rs
            \<and> list_all2 (file_outcome fs (Some Map.empty)) files rs))"
  using Directory_cases [of fs d] DirectoryRecursive_cases [of fs d] by auto

lemma sample_outcomes:
  assumes "list_all2 (file_outcome sample_fs counts) [''d/a.svg'', ''d/b.svg'', ''d/c.SVG''] rs"
  shows "\<exists>ra rc. rs = [ra, read_error_result counts ''d/b.svg'' ''permission denied'', rc]
           \<and> FilePath ra = ''d/a.svg'' \<and> \<not> IsSecure ra \<and> length (Threats ra) = 1 \<and> Errors ra = []
           \<and> FilePath rc = ''d/c.SVG'' \<and> IsSecure rc \<and> Threats rc = [] \<and> Errors rc = []"
proof -
  from assms obtain ra rb rc where rs: "rs = [ra, rb, rc]"
    and a: "file_outcome sample_fs counts ''d/a.svg'' ra"
    and b: "file_outcome sample_fs counts ''d/b.svg'' rb"
    and c: "file_outcome sample_fs counts ''d/c.SVG'' rc"
    by (auto simp: list_all2_Cons1)
  from b have rb: "rb = read_error_result counts ''d/b.svg'' ''permission denied''"
    by (simp add: file_outcome_def sample_fs_def)
  from a have "ScanContentWithLevel ''<style>'' (Some (new_result ''d/a.svg'')) ScanLevelStrict = Inr ra"
    by (simp add: file_outcome_def sample_fs_def)
  with ScanContentWithLevel_new [of "''<style>''" "''d/a.svg''" ScanLevelStrict]
  have ra: "FilePath ra = ''d/a.svg'' \<and> \<not> IsSecure ra \<and> length (Threats ra) = 1 \<and> Errors ra = []"
    by (auto simp: sample_found)
  from c have "ScanContentWithLevel ''<svg/>'' (Some (new_result ''d/c.SVG'')) ScanLevelStrict = Inr rc"
    by (simp add: file_outcome_def sample_fs_def)
  with ScanContentWithLevel_new [of "''<svg/>''" "''d/c.SVG''" ScanLevelStrict]
  have rc: "FilePath rc = ''d/c.SVG'' \<and> IsSecure rc \<and> Threats rc = [] \<and> Errors rc = []"
    by (auto simp: sample_found)
  from rs rb ra rc show ?thesis by simp
qed

text \<open>
  C9 at a directory of three SVG files whose second file cannot be read: three results,
  the second one the read failure, the third one still scanned.
\<close>

theorem directory_read_failures_witness:
  "ListSVGFiles sample_fs ''d'' = Inr [''d/a.svg'', ''d/b.svg'', ''d/c.SVG'']
   \<and> ListSVGFilesRecursive sample_fs ''d'' = Inr [''d/a.svg'', ''d/b.svg'', ''d/c.SVG'']
   \<and> (\<exists>ra rc. Directory sample_fs ''d'' =
          Inr [ra,
               \<lparr>FilePath = ''d/b.svg'', IsSecure = False, Threats = [], ThreatCounts = None,
                Errors = [''failed to read file: permission denied'']\<rparr>,
               rc]
        \<and> FilePath ra = ''d/a.svg'' \<and> \<not> IsSecure ra \<and> FilePath rc = ''d/c.SVG'' \<and> IsSecure rc)
   \<and> (\<exists>ra rc. DirectoryRecursive sample_fs ''d'' =
          Inr [ra,
               \<lparr>FilePath = ''d/b.svg'', IsSecure = False, Threats = [],
                ThreatCounts = Some Map.empty,
                Errors = [''failed to read file: permission denied'']\<rparr>,
               rc]
        \<and> FilePath ra = ''d/a.svg'' \<and> \<not> IsSecure ra \<and> FilePath rc = ''d/c.SVG'' \<and> IsSecure rc)"
proof -
  from directory_read_failures [of sample_fs "''d''" "[''d/a.svg'', ''d/b.svg'', ''d/c.SVG'']"]
  obtain rs1 rs2 where
    d1: "Directory sample_fs ''d'' = Inr rs1"
      "list_all2 (file_outcome sample_fs None) [''d/a.svg'', ''d/b.svg'', ''d/c.SVG''] rs1"
    and d2: "DirectoryRecursive sample_fs ''d'' = Inr rs2"
      "list_all2 (file_outcome sample_fs (Some Map.empty)) [''d/a.svg'', ''d/b.svg'', ''d/c.SVG''] rs2"
    by (auto simp: sample_listing)
  from sample_outcomes [OF d1(2)] sample_outcomes [OF d2(2)] d1(1) d2(1) show ?thesis
    by (auto simp: sample_listing read_error_result_def)
qed

text \<open>C4 at a directory of three SVG files, one of them unreadable.\<close>

theorem counts_match_threats_witness:
  "\<exists>rs. Directory sample_fs ''d'' = Inr rs \<and> length rs = 3 \<and> list_all consistent rs"
proof -
  from Directory_cases [of sample_fs "''d''"] obtain rs where
    d: "Directory sample_fs ''d'' = Inr rs"
      "list_all2 (file_outcome sample_fs None) [''d/a.svg'', ''d/b.svg'', ''d/c.SVG''] rs"
    by (auto simp: sample_listing)
  from d(2) have "length rs = 3" by (auto dest: list_all2_lengthD)
  moreover from counts_match_threats [of "[]" ScanLevelStrict sample_fs "[]" "''d''"] d(1)
  have "\<forall>r\<in>set rs. consistent r" by blast
  ultimately show ?thesis using d(1) by (auto simp: list_all_iff)
qed

section \<open>Properties of the sanitizer and of the script patterns\<close>

























lemma scenarioA_found:
  "found scenarioA (patternsForLevel ScanLevelStrict) =
     [\<lparr>Type = ThreatScript, Description = ''script element'',
       Match = ''<script>alert(1)</script>''\<rparr>]"
  by code_simp

text \<open>Scenarios B and C of the specification.\<close>

lemma scenarioB_found:
  "found scenarioA (patternsForLevel ScanLevelStandard) =
     [\<lparr>Type = ThreatScript, Description = ''script element'',
       Match = ''<script>alert(1)</script>''\<rparr>]"
  by code_simp

lemma scenarioC_sanitized:
  "SanitizeContent scenarioC handlers_only
     = (''<svg><rect/></svg>'',
        [\<lparr>Type = ThreatEventHandler, Description = ''event handler attribute'',
          Match = '' onclick='' @ [dq] @ ''x()'' @ [dq]\<rparr>,
         \<lparr>Type = ThreatEventHandler, Description = ''event handler attribute'',
          Match = '' onload='' @ [dq] @ ''y()'' @ [dq]\<rparr>])"
  by code_simp

lemma multiline_found:
  "found multiline_script (patternsForLevel ScanLevelStrict) = []"
  by code_simp

text \<open>
  Claim C6 at a body with newlines: the Strict scan of a script element whose body is
  \<^verbatim>\<open>alert(1)\<close> on a line of its own reports no threat and leaves the result secure. The
  detection pattern has no flag \<^verbatim>\<open>s\<close>, so its \<^verbatim>\<open>.*?\<close> stops at a newline; the removal
  pattern for the same element has the flag (\<open>multiline_script_removed\<close>). On one line
  the element is found (\<open>scenarioA_found\<close>).
\<close>

theorem multiline_script_not_detected:
  "\<exists>r. ScanContentWithLevel multiline_script None ScanLevelStrict = Inr r
       \<and> Threats r = [] \<and> IsSecure r"
  using ScanContentWithLevel_fresh [of multiline_script ScanLevelStrict]
  by (auto simp: multiline_found)

lemma multiline_script_removed:
  "SanitizeContent multiline_script scripts_only
     = (''<svg><rect/></svg>'',
        [\<lparr>Type = ThreatScript, Description = ''script element'',
          Match = ''<script>'' @ [nl] @ ''alert(1)'' @ [nl] @ ''</script>''\<rparr>])"
  by code_simp

lemma scenarioE_sanitized:
  "fst (SanitizeContent scenarioE external_refs_only)
     = ''<svg><a href='' @ [dq] @ ''#'' @ [dq] @ ''><image href='' @ [dq] @ ''#'' @ [dq]
         @ ''/></a></svg>''"
  by code_simp

text \<open>
  Claim C5 at a single-quoted value: the replacement \<^verbatim>\<open>$1#"\<close> keeps the opening single
  quote of the match and closes the value with a double quote. A double-quoted value
  keeps its quoting (\<open>scenarioE_sanitized\<close>).
\<close>

theorem single_quoted_href_sanitized:
  "SanitizeContent single_quoted_href external_refs_only
     = (''<a href='' @ [sq] @ ''#'' @ [dq] @ ''>x</a>'',
        [\<lparr>Type = ThreatExternalRef, Description = ''external href'',
          Match = ''href='' @ [sq] @ ''https://phish.example/'' @ [sq]\<rparr>])"
  by code_simp


end
